theory Spec2Isabelle
  imports Complex_Main "HOL-Library.AList"
begin

section \<open>Python values, dictionaries and clock times\<close>

text \<open>
  The backend moves JSON-shaped data around: schedule stops, crowd confirmations and
  status reports are Python dictionaries with string keys. A dictionary is modelled as
  an association list in insertion order (the order Python keeps), read with
  \<open>map_of\<close> and written with \<open>AList.update\<close>, which overwrites a present key in
  place and appends an absent one. \<open>PIso t\<close> stands for the string that
  \<open>datetime.isoformat\<close> prints for the instant \<open>t\<close>: the time stamps the code
  writes. \<open>PStr\<close> holds every other string, among them all names and clock strings.
  Strings are lists of characters with code points below 256.
\<close>

datatype pyval =
    PNone
  | PBool bool
  | PInt int
  | PFloat real
  | PStr string
  | PIso int
  | PList "pyval list"
  | PDict "(string \<times> pyval) list"

type_synonym dict = "(string \<times> pyval) list"

text \<open>Python truth value of an object, as tested by \<open>if x\<close> and \<open>x and y\<close>.\<close>

fun truthy :: "pyval \<Rightarrow> bool" where
  "truthy PNone = False"
| "truthy (PBool b) = b"
| "truthy (PInt i) = (i \<noteq> 0)"
| "truthy (PFloat r) = (r \<noteq> 0)"
| "truthy (PStr s) = (s \<noteq> [])"
| "truthy (PIso t) = True"
| "truthy (PList xs) = (xs \<noteq> [])"
| "truthy (PDict kvs) = (kvs \<noteq> [])"

text \<open>
  A naive \<open>datetime\<close> is the number of microseconds since 0001-01-01T00:00:00, the
  first instant Python can represent; the last one is 9999-12-31T23:59:59.999999.
  Python compares two naive datetimes field by field, which is the order of these
  numbers. Day 0 is a Monday.
\<close>

type_synonym datetime = int

definition us_per_minute :: int where
  "us_per_minute = 60000000"

definition us_per_hour :: int where
  "us_per_hour = 3600000000"

definition us_per_day :: int where
  "us_per_day = 86400000000"

definition datetime_max :: datetime where
  "datetime_max = 3652059 * 86400000000 - 1"

definition hour_of :: "datetime \<Rightarrow> int" where
  "hour_of t = (t mod us_per_day) div us_per_hour"

definition weekday :: "datetime \<Rightarrow> int" where
  "weekday t = (t div us_per_day) mod 7"

text \<open>\<open>today.replace(hour=h, minute=m, second=0, microsecond=0)\<close>: the date is kept.\<close>

definition replace_hm :: "datetime \<Rightarrow> nat \<Rightarrow> nat \<Rightarrow> datetime" where
  "replace_hm today h m =
     (today div us_per_day) * us_per_day + int h * us_per_hour + int m * us_per_minute"

section \<open>Clock strings\<close>

text \<open>
  Both the position calculator and the timeline generator read a clock string with
  \<open>time_str.replace(' BST', '').strip()\<close> followed by
  \<open>datetime.strptime(time_part, '%I:%M %p')\<close>. \<open>strptime\<close> compiles the format to
  the regular expression \<open>(1[0-2]|0[1-9]|[1-9]):([0-5]\d|\d)\s+(am|pm)\<close>, matched
  ignoring case from the start of the string, and raises \<open>ValueError\<close> when nothing
  matches or when text remains after the match. Each piece of the expression is a
  function from the remaining input to the list of its matches in the order the
  backtracking matcher tries them. White space is what \<open>str.isspace\<close> and the
  class \<open>\s\<close> accept among the code points below 256 (the ASCII white space, the
  separators U+001C to U+001F, U+0085 and U+00A0), the digits of \<open>\d\<close> there are
  \<open>0\<close> to \<open>9\<close>, and the day period is read in the C locale.
\<close>

definition is_space :: "char \<Rightarrow> bool" where
  "is_space c = (c \<in> set [CHR 0x09, CHR 0x0A, CHR 0x0B, CHR 0x0C, CHR 0x0D,
                             CHR 0x1C, CHR 0x1D, CHR 0x1E, CHR 0x1F, CHR '' '',
                             CHR 0x85, CHR 0xA0])"

definition py_strip :: "string \<Rightarrow> string" where
  "py_strip s = rev (dropWhile is_space (rev (dropWhile is_space s)))"

fun replace_bst :: "string \<Rightarrow> string" where
  "replace_bst [] = []"
| "replace_bst (c # cs) =
     (if take 4 (c # cs) = '' BST'' then replace_bst (drop 3 cs) else c # replace_bst cs)"

definition digit_val :: "char \<Rightarrow> nat" where
  "digit_val c = of_char c - 48"

definition rx_hour12 :: "string \<Rightarrow> (nat \<times> string) list" where
  "rx_hour12 s =
     (case s of c1 # c2 # r \<Rightarrow>
        if c1 = CHR ''1'' \<and> c2 \<in> set ''012'' then [(10 + digit_val c2, r)] else []
      | _ \<Rightarrow> [])
   @ (case s of c1 # c2 # r \<Rightarrow>
        if c1 = CHR ''0'' \<and> c2 \<in> set ''123456789'' then [(digit_val c2, r)] else []
      | _ \<Rightarrow> [])
   @ (case s of c1 # r \<Rightarrow>
        if c1 \<in> set ''123456789'' then [(digit_val c1, r)] else []
      | _ \<Rightarrow> [])"

definition rx_colon :: "string \<Rightarrow> string list" where
  "rx_colon s = (case s of c # r \<Rightarrow> if c = CHR '':'' then [r] else [] | [] \<Rightarrow> [])"

definition rx_minute :: "string \<Rightarrow> (nat \<times> string) list" where
  "rx_minute s =
     (case s of c1 # c2 # r \<Rightarrow>
        if c1 \<in> set ''012345'' \<and> c2 \<in> set ''0123456789''
        then [(10 * digit_val c1 + digit_val c2, r)] else []
      | _ \<Rightarrow> [])
   @ (case s of c1 # r \<Rightarrow>
        if c1 \<in> set ''0123456789'' then [(digit_val c1, r)] else []
      | _ \<Rightarrow> [])"

fun rx_spaces :: "string \<Rightarrow> string list" where
  "rx_spaces [] = []"
| "rx_spaces (c # r) = (if is_space c then rx_spaces r @ [r] else [])"

definition rx_ampm :: "string \<Rightarrow> (bool \<times> string) list" where
  "rx_ampm s =
     (case s of c1 # c2 # r \<Rightarrow>
        (if c1 \<in> set ''aA'' \<and> c2 \<in> set ''mM'' then [(False, r)] else [])
      @ (if c1 \<in> set ''pP'' \<and> c2 \<in> set ''mM'' then [(True, r)] else [])
      | _ \<Rightarrow> [])"

text \<open>The 12-hour reading: 12 AM is hour 0, 12 PM is hour 12.\<close>

definition hour24 :: "nat \<Rightarrow> bool \<Rightarrow> nat" where
  "hour24 h pm = (if pm then (if h = 12 then 12 else h + 12) else (if h = 12 then 0 else h))"

text \<open>
  \<open>strptime(s, '%I:%M %p')\<close>: the hour and minute of the first match, \<open>None\<close> for the
  \<open>ValueError\<close>.
\<close>

definition strptime_IMp :: "string \<Rightarrow> (nat \<times> nat) option" where
  "strptime_IMp s =
     (case [(h, m, pm, r5). (h, r1) \<leftarrow> rx_hour12 s, r2 \<leftarrow> rx_colon r1,
              (m, r3) \<leftarrow> rx_minute r2, r4 \<leftarrow> rx_spaces r3, (pm, r5) \<leftarrow> rx_ampm r4] of
        [] \<Rightarrow> None
      | (h, m, pm, rest) # _ \<Rightarrow> if rest = [] then Some (hour24 h pm, m) else None)"

text \<open>
  \<open>PositionCalculator._parse_time_string\<close>. Every exception is caught inside and
  turned into \<open>None\<close>: a value that is not a string has no \<open>replace\<close> method, and a
  string that is not a clock string fails in \<open>strptime\<close>. The argument \<open>today\<close> is what
  \<open>datetime.now()\<close> returns inside the call.
\<close>

definition pc_parse_time_string :: "datetime \<Rightarrow> pyval \<Rightarrow> datetime option" where
  "pc_parse_time_string today time_str =
     (case time_str of
        PStr s \<Rightarrow>
          (case strptime_IMp (py_strip (replace_bst s)) of
             None \<Rightarrow> None
           | Some (h, m) \<Rightarrow> Some (replace_hm today h m))
      | _ \<Rightarrow> None)"

text \<open>
  \<open>TrainTimelineGenerator._parse_time_string\<close>: the same, after an explicit test for a
  missing value and for the placeholder \<open>'---'\<close>.
\<close>

definition tg_parse_time_string :: "datetime \<Rightarrow> pyval \<Rightarrow> datetime option" where
  "tg_parse_time_string today time_str =
     (if \<not> truthy time_str \<or> time_str = PStr ''---'' then None
      else (case time_str of
              PStr s \<Rightarrow>
                (case strptime_IMp (py_strip (replace_bst s)) of
                   None \<Rightarrow> None
                 | Some (h, m) \<Rightarrow> Some (replace_hm today h m))
            | _ \<Rightarrow> None))"

section \<open>The current-stop scans\<close>

text \<open>
  \<open>PositionCalculator._find_current_station_index\<close>. The loop visits the stops in
  order with their index \<open>i\<close>; \<open>clock i\<close> is the reading of \<open>datetime.now()\<close> taken
  while the departure of stop \<open>i\<close> is parsed. The loop function returns \<open>None\<close> when it
  runs off the end of the list. The scan itself returns Python's \<open>None\<close> only from its
  outer exception handler, which no list of dictionaries reaches, so the model always
  answers \<open>Some\<close>.
\<close>

fun pc_scan :: "(nat \<Rightarrow> datetime) \<Rightarrow> datetime \<Rightarrow> nat \<Rightarrow> dict list \<Rightarrow> int option" where
  "pc_scan clock current_time i [] = None"
| "pc_scan clock current_time i (route # rest) =
     (case map_of route ''departure_time'' of
        None \<Rightarrow> pc_scan clock current_time (Suc i) rest
      | Some v \<Rightarrow>
          if truthy v then
            (case pc_parse_time_string (clock i) v of
               None \<Rightarrow> pc_scan clock current_time (Suc i) rest
             | Some departure_time \<Rightarrow>
                 if departure_time > current_time then Some (max 0 (int i - 1))
                 else pc_scan clock current_time (Suc i) rest)
          else pc_scan clock current_time (Suc i) rest)"

definition find_current_station_index ::
  "(nat \<Rightarrow> datetime) \<Rightarrow> dict list \<Rightarrow> datetime \<Rightarrow> int option" where
  "find_current_station_index clock routes current_time =
     (case pc_scan clock current_time 0 routes of
        Some idx \<Rightarrow> Some idx
      | None \<Rightarrow> Some (int (length routes) - 1))"

text \<open>\<open>TrainTimelineGenerator._find_current_position\<close>, with its own parser.\<close>

fun tg_scan :: "(nat \<Rightarrow> datetime) \<Rightarrow> datetime \<Rightarrow> nat \<Rightarrow> dict list \<Rightarrow> int option" where
  "tg_scan clock current_time i [] = None"
| "tg_scan clock current_time i (route # rest) =
     (case map_of route ''departure_time'' of
        None \<Rightarrow> tg_scan clock current_time (Suc i) rest
      | Some v \<Rightarrow>
          if truthy v then
            (case tg_parse_time_string (clock i) v of
               None \<Rightarrow> tg_scan clock current_time (Suc i) rest
             | Some departure_time \<Rightarrow>
                 if departure_time > current_time then Some (max 0 (int i - 1))
                 else tg_scan clock current_time (Suc i) rest)
          else tg_scan clock current_time (Suc i) rest)"

definition find_current_position ::
  "(nat \<Rightarrow> datetime) \<Rightarrow> dict list \<Rightarrow> datetime \<Rightarrow> int" where
  "find_current_position clock routes current_time =
     (case tg_scan clock current_time 0 routes of
        Some idx \<Rightarrow> idx
      | None \<Rightarrow> int (length routes) - 1)"

text \<open>\<open>TrainTimelineGenerator._determine_station_status\<close>.\<close>

definition determine_station_status ::
  "(nat \<Rightarrow> datetime) \<Rightarrow> int \<Rightarrow> dict list \<Rightarrow> datetime \<Rightarrow> string" where
  "determine_station_status clock station_idx routes current_time =
     (let current_position = find_current_position clock routes current_time in
      if station_idx < current_position then ''completed''
      else if station_idx = current_position then ''current''
      else if station_idx = current_position + 1 then ''next''
      else ''upcoming'')"

text \<open>
  The condition both loops test on a stop: it has a departure entry with a true value
  that parses to an instant strictly after the current time.
\<close>

definition departs_after :: "datetime \<Rightarrow> datetime \<Rightarrow> dict \<Rightarrow> bool" where
  "departs_after today current_time route =
     (case map_of route ''departure_time'' of
        None \<Rightarrow> False
      | Some v \<Rightarrow>
          truthy v \<and>
          (case pc_parse_time_string today v of
             None \<Rightarrow> False
           | Some departure_time \<Rightarrow> departure_time > current_time))"

text \<open>
  The three-stop route of the end-to-end scenario. The terminal stop has an arrival and
  no departure. Clock times are taken on 2024-01-03 (day 738887, a Wednesday), and every
  reading of the system clock in the scenario is 10:30 AM of that day.
\<close>

definition scenario_route :: "dict list" where
  "scenario_route =
     [[(''city'', PStr ''StationA''), (''departure_time'', PStr ''09:00 AM'')],
      [(''city'', PStr ''StationB''), (''arrival_time'', PStr ''10:00 AM''),
       (''departure_time'', PStr ''10:05 AM'')],
      [(''city'', PStr ''StationC''), (''arrival_time'', PStr ''11:00 AM'')]]"

definition scenario_day :: datetime where
  "scenario_day = 738887 * 86400000000"

definition at_clock :: "nat \<Rightarrow> nat \<Rightarrow> datetime" where
  "at_clock h m = replace_hm scenario_day h m"

definition scenario_clock :: "nat \<Rightarrow> datetime" where
  "scenario_clock i = at_clock 10 30"

text \<open>A four-stop route in the format of the schedule files.\<close>

definition long_route :: "dict list" where
  "long_route =
     [[(''city'', PStr ''Dhaka''), (''departure_time'', PStr ''09:00 AM BST'')],
      [(''city'', PStr ''Tongi''), (''arrival_time'', PStr ''10:00 AM BST''),
       (''departure_time'', PStr ''10:05 AM BST'')],
      [(''city'', PStr ''Joydebpur''), (''arrival_time'', PStr ''11:00 AM BST''),
       (''departure_time'', PStr ''11:10 AM BST'')],
      [(''city'', PStr ''Mymensingh''), (''arrival_time'', PStr ''12:30 PM BST''),
       (''departure_time'', PStr ''---'')]]"

section \<open>Floating point, strings and table lookups\<close>

text \<open>
  A Python float is modelled by the real number it denotes, and a decimal literal such
  as \<open>1.2\<close> by the number written. The arithmetic on floats rounds, so it is not the
  arithmetic of the reals: the rounding operations are the fields of a parameter
  \<open>F\<close>, about which nothing is assumed, and every theorem below holds for whatever
  rounding the machine performs. \<open>exact_ops\<close> is the instance without rounding, used
  to evaluate the model on inputs where the floating-point result is exact.
\<close>

record float_ops =
  fadd :: "real \<Rightarrow> real \<Rightarrow> real"
  fmul :: "real \<Rightarrow> real \<Rightarrow> real"
  fdiv :: "real \<Rightarrow> real \<Rightarrow> real"
  fround :: "nat \<Rightarrow> real \<Rightarrow> real"

definition exact_ops :: float_ops where
  "exact_ops = \<lparr> fadd = (\<lambda>x y. x + y), fmul = (\<lambda>x y. x * y), fdiv = (\<lambda>x y. x / y),
                 fround = (\<lambda>n x. of_int (round (x * 10 ^ n)) / 10 ^ n) \<rparr>"

text \<open>\<open>int(x)\<close> on a float truncates towards zero.\<close>

definition py_int :: "real \<Rightarrow> int" where
  "py_int x = (if 0 \<le> x then \<lfloor>x\<rfloor> else \<lceil>x\<rceil>)"

text \<open>\<open>d.get(k, default)\<close>.\<close>

definition dict_get :: "(string \<times> 'a) list \<Rightarrow> string \<Rightarrow> 'a \<Rightarrow> 'a" where
  "dict_get d k dflt = (case map_of d k of None \<Rightarrow> dflt | Some v \<Rightarrow> v)"

text \<open>\<open>s.lower()\<close> on ASCII text, and the substring test \<open>p in s\<close>.\<close>

definition py_lower :: "string \<Rightarrow> string" where
  "py_lower s =
     map (\<lambda>c. if c \<in> set ''ABCDEFGHIJKLMNOPQRSTUVWXYZ''
               then char_of (of_char c + (32::nat)) else c) s"

fun is_substring :: "string \<Rightarrow> string \<Rightarrow> bool" where
  "is_substring p [] = (p = [])"
| "is_substring p (c # cs) = (take (length p) (c # cs) = p \<or> is_substring p cs)"

text \<open>
  \<open>scheduled_time + timedelta(minutes=m)\<close>: Python raises \<open>OverflowError\<close> when the
  sum leaves the range of \<open>datetime\<close>; \<open>None\<close> stands for the exception.
\<close>

definition add_minutes :: "datetime \<Rightarrow> int \<Rightarrow> datetime option" where
  "add_minutes t m =
     (let r = t + m * us_per_minute in if 0 \<le> r \<and> r \<le> datetime_max then Some r else None)"

section \<open>The delay simulator\<close>

text \<open>The tables of \<open>DelaySimulator.__init__\<close>.\<close>

definition weather_factors :: "(string \<times> real) list" where
  "weather_factors =
     [(''clear'', 1.0), (''cloudy'', 1.2), (''rainy'', 1.5), (''stormy'', 2.0), (''foggy'', 1.8)]"

definition day_factors :: "(string \<times> real) list" where
  "day_factors =
     [(''Monday'', 1.3), (''Tuesday'', 1.1), (''Wednesday'', 1.0), (''Thursday'', 1.1),
      (''Friday'', 1.4), (''Saturday'', 0.9), (''Sunday'', 0.8)]"

definition station_delay_factors :: "(string \<times> real) list" where
  "station_delay_factors =
     [(''Dhaka'', 1.5), (''Chattogram'', 1.4), (''Rajshahi'', 1.2), (''Khulna'', 1.2),
      (''Sylhet'', 1.1), (''Barisal'', 1.1), (''Rangpur'', 1.1), (''Mymensingh'', 1.0)]"

text \<open>
  The random draws of one call of \<open>simulate_delay\<close>: \<open>random.random()\<close>, the
  \<open>random.randint(5, 25)\<close> that is drawn when the first is below 0.3, and
  \<open>random.uniform(0.8, 1.2)\<close>.
\<close>

record draws =
  base_u :: real
  base_minutes :: int
  jitter :: real

text \<open>\<open>_calculate_base_delay\<close>, with probability 0.3 and range (5, 25).\<close>

definition calculate_base_delay :: "draws \<Rightarrow> int" where
  "calculate_base_delay dr = (if base_u dr < 0.3 then base_minutes dr else 0)"

text \<open>\<open>_get_time_factor\<close>; the values are those of the table \<open>time_factors\<close>.\<close>

definition get_time_factor :: "datetime \<Rightarrow> real" where
  "get_time_factor current_time =
     (let hour = hour_of current_time in
      if 5 \<le> hour \<and> hour < 8 then 0.8
      else if 8 \<le> hour \<and> hour < 10 then 1.4
      else if 10 \<le> hour \<and> hour < 12 then 1.0
      else if 12 \<le> hour \<and> hour < 17 then 1.1
      else if 17 \<le> hour \<and> hour < 20 then 1.6
      else if 20 \<le> hour \<and> hour < 22 then 1.2
      else 0.9)"

text \<open>\<open>current_time.strftime('%A')\<close> in the C locale.\<close>

definition day_name :: "datetime \<Rightarrow> string" where
  "day_name t =
     [''Monday'', ''Tuesday'', ''Wednesday'', ''Thursday'', ''Friday'', ''Saturday'', ''Sunday'']
       ! nat (weekday t)"

definition get_day_factor :: "datetime \<Rightarrow> real" where
  "get_day_factor current_time = dict_get day_factors (day_name current_time) 1.0"

text \<open>\<open>_get_station_factor\<close>: the first pattern of the table, in its order, that occurs
  in the station name without regard to case.\<close>

fun station_factor_loop :: "(string \<times> real) list \<Rightarrow> string \<Rightarrow> real" where
  "station_factor_loop [] station_name = 1.0"
| "station_factor_loop ((station_pattern, factor) # rest) station_name =
     (if is_substring (py_lower station_pattern) (py_lower station_name) then factor
      else station_factor_loop rest station_name)"

definition get_station_factor :: "string \<Rightarrow> real" where
  "get_station_factor station_name = station_factor_loop station_delay_factors station_name"

text \<open>
  The history \<open>historical_patterns\<close>: per train, per station, the list of observations,
  oldest first. \<open>timestamp\<close> is the instant whose \<open>isoformat\<close> text is stored.
\<close>

record observation =
  delay :: int
  timestamp :: datetime

type_synonym history = "(string \<times> (string \<times> observation list) list) list"

definition bucket_of :: "history \<Rightarrow> string \<Rightarrow> string \<Rightarrow> observation list" where
  "bucket_of hp train_number station =
     (case map_of hp train_number of
        None \<Rightarrow> []
      | Some stations \<Rightarrow> (case map_of stations station of None \<Rightarrow> [] | Some b \<Rightarrow> b))"

text \<open>
  \<open>_update_historical_patterns\<close>: missing entries are created empty, the observation is
  appended, and the first element is popped when the list is longer than 100. \<open>stamp\<close>
  is the reading of \<open>datetime.now()\<close>.
\<close>

definition update_historical_patterns ::
  "history \<Rightarrow> string \<Rightarrow> string \<Rightarrow> int \<Rightarrow> datetime \<Rightarrow> history" where
  "update_historical_patterns hp train_number station d stamp =
     (let stations = (case map_of hp train_number of None \<Rightarrow> [] | Some m \<Rightarrow> m);
          delays = (case map_of stations station of None \<Rightarrow> [] | Some b \<Rightarrow> b);
          appended = delays @ [\<lparr> delay = d, timestamp = stamp \<rparr>];
          kept = (if length appended > 100 then tl appended else appended)
      in AList.update train_number (AList.update station kept stations) hp)"

text \<open>The dictionary \<open>simulate_delay\<close> returns; the two times are kept as instants
  rather than as their \<open>isoformat\<close> text.\<close>

record delay_report =
  dr_delay_minutes :: int
  dr_scheduled_time :: datetime
  dr_actual_time :: datetime
  dr_weather_condition :: string
  dr_factors_applied :: "(string \<times> real) list"

text \<open>The dictionary of the exception handler of \<open>simulate_delay\<close>.\<close>

definition fallback_report :: "datetime \<Rightarrow> string \<Rightarrow> delay_report" where
  "fallback_report scheduled_time weather_condition =
     \<lparr> dr_delay_minutes = 0, dr_scheduled_time = scheduled_time,
       dr_actual_time = scheduled_time, dr_weather_condition = weather_condition,
       dr_factors_applied = [] \<rparr>"

text \<open>
  \<open>simulate_delay\<close>, returning the report and the new history. The station is a
  Python value because the timeline generator passes what the schedule file holds: a
  value that is not a string has no \<open>lower\<close> method, and the \<open>AttributeError\<close> of
  \<open>_get_station_factor\<close> lands in the handler, as does the \<open>OverflowError\<close> of the
  addition; in both cases the history has not been touched.
\<close>

definition simulate_delay ::
  "float_ops \<Rightarrow> draws \<Rightarrow> datetime \<Rightarrow> history \<Rightarrow> string \<Rightarrow> pyval \<Rightarrow> datetime \<Rightarrow> datetime
     \<Rightarrow> string \<Rightarrow> delay_report \<times> history" where
  "simulate_delay F dr stamp hp train_number current_station scheduled_time current_time
       weather_condition =
     (let base_delay = calculate_base_delay dr;
          weather_factor = dict_get weather_factors weather_condition 1.0;
          time_factor = get_time_factor current_time;
          day_factor = get_day_factor current_time
      in case current_station of
           PStr station \<Rightarrow>
             (let station_factor = get_station_factor station;
                  final_delay =
                    fmul F (fmul F (fmul F (fmul F (of_int base_delay) weather_factor)
                      time_factor) day_factor) station_factor;
                  final_delay = py_int (fmul F final_delay (jitter dr));
                  final_delay = max 0 (min final_delay 120)
              in case add_minutes scheduled_time final_delay of
                   None \<Rightarrow> (fallback_report scheduled_time weather_condition, hp)
                 | Some actual_time \<Rightarrow>
                     (\<lparr> dr_delay_minutes = final_delay, dr_scheduled_time = scheduled_time,
                        dr_actual_time = actual_time, dr_weather_condition = weather_condition,
                        dr_factors_applied =
                          [(''weather'', weather_factor), (''time_of_day'', time_factor),
                           (''day_of_week'', day_factor), (''station'', station_factor)] \<rparr>,
                      update_historical_patterns hp train_number station final_delay stamp))
         | _ \<Rightarrow> (fallback_report scheduled_time weather_condition, hp))"

text \<open>
  The histories a simulator can hold: it starts empty, and only \<open>simulate_delay\<close>
  writes to it.
\<close>

inductive reachable :: "float_ops \<Rightarrow> history \<Rightarrow> bool" for F :: float_ops where
  reachable_init: "reachable F []"
| reachable_step:
    "reachable F hp \<Longrightarrow>
     simulate_delay F dr stamp hp train_number current_station scheduled_time current_time
       weather_condition = (rep, hp') \<Longrightarrow>
     reachable F hp'"

text \<open>\<open>_get_delay_distribution\<close>: the four counters, in the order of the dictionary.\<close>

fun get_delay_distribution :: "int list \<Rightarrow> int \<times> int \<times> int \<times> int" where
  "get_delay_distribution [] = (0, 0, 0, 0)"
| "get_delay_distribution (d # ds) =
     (case get_delay_distribution ds of (a, b, c, e) \<Rightarrow>
        if d \<le> 15 then (a + 1, b, c, e)
        else if d \<le> 30 then (a, b + 1, c, e)
        else if d \<le> 60 then (a, b, c + 1, e)
        else (a, b, c, e + 1))"

record delay_stats =
  total_delays :: nat
  average_delay :: real
  max_delay :: int
  min_delay :: int
  delay_distribution :: "int \<times> int \<times> int \<times> int"

text \<open>
  \<open>get_historical_delay_stats\<close>. \<open>Inl msg\<close> is the dictionary \<open>{'error': msg}\<close>. The
  station is optional; \<open>None\<close> and the empty string are false and select all stations of
  the train.
\<close>

definition all_delays :: "(string \<times> observation list) list \<Rightarrow> int list" where
  "all_delays stations = concat (map (\<lambda>(s, b). map delay b) stations)"

definition get_historical_delay_stats ::
  "float_ops \<Rightarrow> history \<Rightarrow> string \<Rightarrow> string option \<Rightarrow> string + delay_stats" where
  "get_historical_delay_stats F hp train_number station =
     (case map_of hp train_number of
        None \<Rightarrow> Inl ''No historical data available''
      | Some stations \<Rightarrow>
          (let selected =
             (case station of
                None \<Rightarrow> Inr (all_delays stations)
              | Some s \<Rightarrow>
                  if s \<noteq> [] then
                    (case map_of stations s of
                       None \<Rightarrow> Inl ''No data for this station''
                     | Some b \<Rightarrow> Inr (map delay b))
                  else Inr (all_delays stations))
           in case selected of
                Inl msg \<Rightarrow> Inl msg
              | Inr delays \<Rightarrow>
                  if delays = [] then Inl ''No delay data available''
                  else Inr \<lparr> total_delays = length delays,
                             average_delay =
                               fround F 1 (fdiv F (of_int (sum_list delays))
                                                  (of_nat (length delays))),
                             max_delay = fold max (tl delays) (hd delays),
                             min_delay = fold min (tl delays) (hd delays),
                             delay_distribution = get_delay_distribution delays \<rparr>))"

text \<open>\<open>str(KeyError(k))\<close> for a key without quotes, backslashes or control characters.\<close>

definition key_error_text :: "string \<Rightarrow> string" where
  "key_error_text k = [CHR 0x27] @ k @ [CHR 0x27]"

text \<open>
  \<open>predict_delay_probability\<close>, returning the dictionary. An error dictionary of the
  statistics is passed on as it is; the lookups of
  \<open>self.historical_patterns[train_number][station]\<close> raise \<open>KeyError\<close> for a missing
  key, which the handler turns into an error dictionary.
\<close>

definition predict_delay_probability ::
  "float_ops \<Rightarrow> history \<Rightarrow> string \<Rightarrow> string \<Rightarrow> datetime \<Rightarrow> dict" where
  "predict_delay_probability F hp train_number station scheduled_time =
     (case get_historical_delay_stats F hp train_number (Some station) of
        Inl msg \<Rightarrow> [(''error'', PStr msg)]
      | Inr stats \<Rightarrow>
          if total_delays stats = 0 then
            [(''delay_probability'', PFloat 0.3), (''confidence'', PStr ''low'')]
          else
            (case map_of hp train_number of
               None \<Rightarrow> [(''error'', PStr (key_error_text train_number))]
             | Some stations \<Rightarrow>
                 (case map_of stations station of
                    None \<Rightarrow> [(''error'', PStr (key_error_text station))]
                  | Some b \<Rightarrow>
                      (let delayed_count = length (filter (\<lambda>d. delay d > 0) b);
                           historical_probability =
                             fdiv F (of_nat delayed_count) (of_nat (total_delays stats));
                           time_factor = get_time_factor scheduled_time;
                           day_factor = get_day_factor scheduled_time;
                           adjusted_probability =
                             fmul F (fmul F historical_probability time_factor) day_factor;
                           adjusted_probability = max 0.1 (min adjusted_probability 0.9);
                           confidence =
                             (if total_delays stats \<ge> 50 then ''high''
                              else if total_delays stats \<ge> 20 then ''medium''
                              else ''low'')
                       in [(''delay_probability'', PFloat (fround F 3 adjusted_probability)),
                           (''confidence'', PStr confidence),
                           (''historical_data_points'', PInt (int (total_delays stats))),
                           (''factors_applied'',
                              PDict [(''time_of_day'', PFloat time_factor),
                                     (''day_of_week'', PFloat day_factor)])]))))"

text \<open>Inputs for evaluating the simulator: draws that give a delay of ten minutes
  before the factors, and draws that give none.\<close>

definition ten_minute_draws :: draws where
  "ten_minute_draws = \<lparr> base_u = 0.1, base_minutes = 10, jitter = 1 \<rparr>"

definition no_delay_draws :: draws where
  "no_delay_draws = \<lparr> base_u = 0.5, base_minutes = 10, jitter = 1 \<rparr>"

text \<open>The history after \<open>n\<close> calls of \<open>simulate_delay\<close> for one train at one station, the
  \<open>k\<close>-th call stamped with the instant \<open>k\<close>.\<close>

fun simulate_n :: "nat \<Rightarrow> history" where
  "simulate_n 0 = []"
| "simulate_n (Suc n) =
     snd (simulate_delay exact_ops no_delay_draws (int (Suc n)) (simulate_n n)
            ''701'' (PStr ''Tongi'') (at_clock 10 5) (at_clock 10 30) ''clear'')"

text \<open>The invariant of the history: no list of observations is longer than 100.\<close>

definition history_inv :: "history \<Rightarrow> bool" where
  "history_inv hp = (\<forall>train stations station b.
      map_of hp train = Some stations \<and> map_of stations station = Some b \<longrightarrow> length b \<le> 100)"




section \<open>The position calculator\<close>

text \<open>
  What \<open>data_loader.get_schedule_by_train\<close> hands over: \<open>None\<close> stands for a false
  answer (\<open>None\<close> or an empty dictionary), \<open>Some\<close> for a schedule, of which the code
  reads \<open>data.train_name\<close> (optional) and \<open>data.routes\<close> (the empty list when
  absent).
\<close>

record schedule =
  sched_train_name :: "pyval option"
  sched_routes :: "dict list"

text \<open>\<open>xs[i]\<close> with Python's negative indices; \<open>None\<close> is the \<open>IndexError\<close>.\<close>

definition py_index :: "'a list \<Rightarrow> int \<Rightarrow> 'a option" where
  "py_index xs i =
     (if 0 \<le> i \<and> i < int (length xs) then Some (xs ! nat i)
      else if i < 0 \<and> - int (length xs) \<le> i then Some (xs ! nat (int (length xs) + i))
      else None)"

text \<open>
  The loop shared by \<open>_calculate_distance_covered\<close> and
  \<open>_calculate_distance_from_start\<close>: for \<open>i\<close> in \<open>range(idx)\<close>, when stop
  \<open>i + 1\<close> exists, the distance between the cities of the stops \<open>i\<close> and \<open>i + 1\<close>
  is added. \<open>None\<close> is the \<open>KeyError\<close> of a stop without a city. The parameter
  \<open>leg\<close> is \<open>calculate_distance_between_stations\<close>, a haversine formula over the
  station table that answers 0.0 on every failure.
\<close>

definition leg_distances ::
  "float_ops \<Rightarrow> (pyval \<Rightarrow> pyval \<Rightarrow> real) \<Rightarrow> dict list \<Rightarrow> int \<Rightarrow> real option" where
  "leg_distances F leg routes idx =
     fold (\<lambda>i acc.
             case acc of
               None \<Rightarrow> None
             | Some total_distance \<Rightarrow>
                 if i + 1 < length routes then
                   (case (map_of (routes ! i) ''city'', map_of (routes ! (i + 1)) ''city'') of
                      (Some a, Some b) \<Rightarrow> Some (fadd F total_distance (leg a b))
                    | _ \<Rightarrow> None)
                 else Some total_distance)
          [0..<nat idx] (Some 0)"

definition calculate_distance_covered ::
  "float_ops \<Rightarrow> (pyval \<Rightarrow> pyval \<Rightarrow> real) \<Rightarrow> dict list \<Rightarrow> int \<Rightarrow> real" where
  "calculate_distance_covered F leg routes current_idx =
     (case leg_distances F leg routes current_idx of None \<Rightarrow> 0 | Some d \<Rightarrow> d)"

definition calculate_distance_to_next ::
  "(pyval \<Rightarrow> pyval \<Rightarrow> real) \<Rightarrow> dict list \<Rightarrow> int \<Rightarrow> real" where
  "calculate_distance_to_next leg routes current_idx =
     (if current_idx + 1 \<ge> int (length routes) then 0
      else (case (py_index routes current_idx, py_index routes (current_idx + 1)) of
              (Some cur, Some nxt) \<Rightarrow>
                (case (map_of cur ''city'', map_of nxt ''city'') of
                   (Some a, Some b) \<Rightarrow> leg a b
                 | _ \<Rightarrow> 0)
            | _ \<Rightarrow> 0))"

text \<open>
  The text \<open>_calculate_eta_to_next\<close> formats: \<open>"Arrived"\<close>, \<open>"{h}h {m}m"\<close> or
  \<open>"{m}m"\<close>. Hours and minutes are computed on whole microseconds, which is what the
  floor divisions of \<open>total_seconds()\<close> give for differences within a day.
\<close>

datatype eta = Arrived | HoursMinutes int int | Minutes int

definition calculate_eta_to_next ::
  "datetime \<Rightarrow> dict list \<Rightarrow> int \<Rightarrow> datetime \<Rightarrow> eta option" where
  "calculate_eta_to_next today routes current_idx current_time =
     (if current_idx + 1 \<ge> int (length routes) then None
      else (case py_index routes (current_idx + 1) of
              None \<Rightarrow> None
            | Some next_route \<Rightarrow>
                (case map_of next_route ''arrival_time'' of
                   None \<Rightarrow> None
                 | Some v \<Rightarrow>
                     if \<not> truthy v then None
                     else (case pc_parse_time_string today v of
                             None \<Rightarrow> None
                           | Some arrival_time \<Rightarrow>
                               (let time_diff = arrival_time - current_time in
                                if time_diff \<le> 0 then Some Arrived
                                else (let hours = time_diff div us_per_hour;
                                          minutes = (time_diff mod us_per_hour) div us_per_minute
                                      in if hours > 0 then Some (HoursMinutes hours minutes)
                                         else Some (Minutes minutes)))))))"

text \<open>The dictionary of a position; \<open>ps_next_station\<close> is \<open>PNone\<close> at the last stop.\<close>

record snapshot =
  ps_current_station_idx :: int
  ps_current_station :: pyval
  ps_next_station :: pyval
  ps_progress_percentage :: real
  ps_distance_covered :: real
  ps_distance_to_next :: real
  ps_eta_to_next :: "eta option"
  ps_total_stations :: nat
  ps_current_time :: datetime

text \<open>
  \<open>calculate_train_position\<close>. \<open>Inl msg\<close> is the dictionary \<open>{"error": msg}\<close>: the
  three explicit ones, and those of the handler, whose message is the text of the
  exception. The division \<open>current_station_idx / (total_stations - 1)\<close> raises
  \<open>ZeroDivisionError\<close> on a zero divisor; a stop without a city raises \<open>KeyError\<close>
  when the dictionary is built. \<open>clock\<close> are the clock readings of the scan and
  \<open>eta_today\<close> the one of the arrival parse.
\<close>

definition calculate_train_position ::
  "float_ops \<Rightarrow> (pyval \<Rightarrow> pyval \<Rightarrow> real) \<Rightarrow> (nat \<Rightarrow> datetime) \<Rightarrow> datetime
     \<Rightarrow> schedule option \<Rightarrow> datetime \<Rightarrow> string + snapshot" where
  "calculate_train_position F leg clock eta_today sched current_time =
     (case sched of
        None \<Rightarrow> Inl ''Train schedule not found''
      | Some s \<Rightarrow>
          (let routes = sched_routes s in
           if routes = [] then Inl ''No routes found in schedule''
           else
             (case find_current_station_index clock routes current_time of
                None \<Rightarrow> Inl ''Unable to determine current position''
              | Some current_station_idx \<Rightarrow>
                  (let total_stations = length routes in
                   if int total_stations - 1 = 0 then Inl ''division by zero''
                   else
                     (let progress_percentage =
                            fmul F (fdiv F (of_int current_station_idx)
                                           (of_int (int total_stations - 1))) 100;
                          distance_covered =
                            calculate_distance_covered F leg routes current_station_idx;
                          distance_to_next =
                            calculate_distance_to_next leg routes current_station_idx;
                          eta_to_next =
                            calculate_eta_to_next eta_today routes current_station_idx
                              current_time
                      in case py_index routes current_station_idx of
                           None \<Rightarrow> Inl ''list index out of range''
                         | Some cur \<Rightarrow>
                             (case map_of cur ''city'' of
                                None \<Rightarrow> Inl (key_error_text ''city'')
                              | Some city \<Rightarrow>
                                  (let next_station =
                                     (if current_station_idx + 1 < int total_stations then
                                        (case py_index routes (current_station_idx + 1) of
                                           None \<Rightarrow> Inl ''list index out of range''
                                         | Some nxt \<Rightarrow>
                                             (case map_of nxt ''city'' of
                                                None \<Rightarrow> Inl (key_error_text ''city'')
                                              | Some c \<Rightarrow> Inr c))
                                      else Inr PNone)
                                   in case next_station of
                                        Inl msg \<Rightarrow> Inl msg
                                      | Inr nxt_city \<Rightarrow>
                                          Inr \<lparr> ps_current_station_idx = current_station_idx,
                                                ps_current_station = city,
                                                ps_next_station = nxt_city,
                                                ps_progress_percentage =
                                                  fround F 2 progress_percentage,
                                                ps_distance_covered =
                                                  fround F 2 distance_covered,
                                                ps_distance_to_next =
                                                  fround F 2 distance_to_next,
                                                ps_eta_to_next = eta_to_next,
                                                ps_total_stations = total_stations,
                                                ps_current_time = current_time \<rparr>)))))))"

text \<open>\<open>estimate_train_speed\<close>; \<open>random_factor\<close> is the draw
  \<open>random.uniform(0.9, 1.1)\<close>.\<close>

definition estimate_train_speed ::
  "float_ops \<Rightarrow> (pyval \<Rightarrow> pyval \<Rightarrow> real) \<Rightarrow> (nat \<Rightarrow> datetime) \<Rightarrow> datetime
     \<Rightarrow> schedule option \<Rightarrow> datetime \<Rightarrow> real \<Rightarrow> real" where
  "estimate_train_speed F leg clock eta_today sched current_time random_factor =
     (case calculate_train_position F leg clock eta_today sched current_time of
        Inl msg \<Rightarrow> 0
      | Inr position \<Rightarrow>
          (let base_speed = 60;
               hour = hour_of current_time;
               speed_multiplier =
                 (if (6 \<le> hour \<and> hour \<le> 9) \<or> (17 \<le> hour \<and> hour \<le> 20) then 0.8
                  else if 22 \<le> hour \<or> hour \<le> 5 then 1.2
                  else 1.0);
               estimated_speed = fmul F (fmul F base_speed speed_multiplier) random_factor
           in fround F 1 estimated_speed))"

text \<open>A distance table for evaluating the model: every leg is 10 km long.\<close>

definition ten_km :: "pyval \<Rightarrow> pyval \<Rightarrow> real" where
  "ten_km a b = 10"

definition one_stop_schedule :: schedule where
  "one_stop_schedule =
     \<lparr> sched_train_name = Some (PStr ''Shuttle''),
       sched_routes = [[(''city'', PStr ''Dhaka''), (''departure_time'', PStr ''09:00 AM BST'')]] \<rparr>"

definition long_schedule :: schedule where
  "long_schedule = \<lparr> sched_train_name = Some (PStr ''Jamuna Express''),
                      sched_routes = long_route \<rparr>"

section \<open>The timeline generator\<close>

text \<open>
  \<open>DelaySimulator.get_weather_condition\<close>: the location is ignored, the hour is the
  one of the system clock, and \<open>random.choices\<close> picks one of three conditions.
\<close>

datatype pick = Pick0 | Pick1 | Pick2

definition get_weather_condition :: "datetime \<Rightarrow> pick \<Rightarrow> string" where
  "get_weather_condition clock_reading p =
     (let current_hour = hour_of clock_reading in
      if 6 \<le> current_hour \<and> current_hour \<le> 18 then
        (case p of Pick0 \<Rightarrow> ''clear'' | Pick1 \<Rightarrow> ''cloudy'' | Pick2 \<Rightarrow> ''rainy'')
      else
        (case p of Pick0 \<Rightarrow> ''clear'' | Pick1 \<Rightarrow> ''cloudy'' | Pick2 \<Rightarrow> ''foggy''))"

text \<open>
  What the generator reads from the system clock and from the random generator while it
  handles one stop: the clock readings of the status scan, of the two parses, of the two
  weather calls and of the two history entries, and the random draws of the two weather
  calls and of the two delay simulations.
\<close>

record station_env =
  scan_clock :: "nat \<Rightarrow> datetime"
  arrival_today :: datetime
  departure_today :: datetime
  delay_weather_now :: datetime
  delay_weather_pick :: pick
  arrival_draws :: draws
  arrival_stamp :: datetime
  departure_draws :: draws
  departure_stamp :: datetime
  status_weather_now :: datetime
  status_weather_pick :: pick

text \<open>The dictionary of \<open>_simulate_station_delays\<close>.\<close>

record station_delay_info =
  si_delay_minutes :: int
  si_actual_arrival :: "datetime option"
  si_actual_departure :: "datetime option"
  si_weather_condition :: string

text \<open>
  \<open>_simulate_station_delays\<close>, with the simulator's history passed through. A delay
  is simulated for each of the two times that parsed; the actual time is the scheduled one
  plus the delay when the delay is positive. The handler's dictionary is returned when an
  addition overflows; what the simulator recorded before stays recorded.
\<close>

definition simulate_station_delays ::
  "float_ops \<Rightarrow> station_env \<Rightarrow> history \<Rightarrow> pyval \<Rightarrow> datetime option \<Rightarrow> datetime option
     \<Rightarrow> datetime \<Rightarrow> station_delay_info \<times> history" where
  "simulate_station_delays F env hp station_name scheduled_arrival scheduled_departure
       current_time =
     (let weather = get_weather_condition (delay_weather_now env) (delay_weather_pick env);
          failed = \<lparr> si_delay_minutes = 0, si_actual_arrival = scheduled_arrival,
                     si_actual_departure = scheduled_departure,
                     si_weather_condition = ''clear'' \<rparr>;
          (arrival, hp1) =
            (case scheduled_arrival of
               None \<Rightarrow> (Some (0, None), hp)
             | Some t \<Rightarrow>
                 (let (info, h) = simulate_delay F (arrival_draws env) (arrival_stamp env) hp
                                    ''STATION_SIMULATION'' station_name t current_time weather;
                      arrival_delay = dr_delay_minutes info
                  in if arrival_delay > 0 then
                       (case add_minutes t arrival_delay of
                          None \<Rightarrow> (None, h)
                        | Some a \<Rightarrow> (Some (arrival_delay, Some a), h))
                     else (Some (arrival_delay, Some t), h)))
      in case arrival of
           None \<Rightarrow> (failed, hp1)
         | Some (arrival_delay, actual_arrival) \<Rightarrow>
             (let (departure, hp2) =
                (case scheduled_departure of
                   None \<Rightarrow> (Some (0, None), hp1)
                 | Some t \<Rightarrow>
                     (let (info, h) = simulate_delay F (departure_draws env)
                                        (departure_stamp env) hp1 ''STATION_SIMULATION''
                                        station_name t current_time weather;
                          departure_delay = dr_delay_minutes info
                      in if departure_delay > 0 then
                           (case add_minutes t departure_delay of
                              None \<Rightarrow> (None, h)
                            | Some d \<Rightarrow> (Some (departure_delay, Some d), h))
                         else (Some (departure_delay, Some t), h)))
              in case departure of
                   None \<Rightarrow> (failed, hp2)
                 | Some (departure_delay, actual_departure) \<Rightarrow>
                     (\<lparr> si_delay_minutes = max arrival_delay departure_delay,
                        si_actual_arrival = actual_arrival,
                        si_actual_departure = actual_departure,
                        si_weather_condition = weather \<rparr>, hp2)))"

text \<open>\<open>_calculate_distance_from_start\<close>.\<close>

definition calculate_distance_from_start ::
  "float_ops \<Rightarrow> (pyval \<Rightarrow> pyval \<Rightarrow> real) \<Rightarrow> dict list \<Rightarrow> nat \<Rightarrow> real" where
  "calculate_distance_from_start F leg routes station_idx =
     (if station_idx = 0 then 0
      else (case leg_distances F leg routes (int station_idx) of None \<Rightarrow> 0 | Some d \<Rightarrow> d))"

text \<open>
  \<open>major in station_name\<close> for a station name of any type: a substring test on a
  string, membership in a list, key membership in a dictionary, and \<open>TypeError\<close>
  (\<open>None\<close>) on a value that is not a container.
\<close>

definition name_contains :: "pyval \<Rightarrow> string \<Rightarrow> bool option" where
  "name_contains station_name major =
     (case station_name of
        PStr s \<Rightarrow> Some (is_substring major s)
      | PIso t \<Rightarrow> Some False
      | PList xs \<Rightarrow> Some (PStr major \<in> set xs)
      | PDict kvs \<Rightarrow> Some (major \<in> fst ` set kvs)
      | _ \<Rightarrow> None)"

definition major_stations :: "string list" where
  "major_stations = [''Dhaka'', ''Chattogram'', ''Rajshahi'', ''Khulna'', ''Sylhet'']"

text \<open>\<open>_estimate_crowd_level\<close>; the handler answers \<open>'normal'\<close>.\<close>

definition estimate_crowd_level :: "pyval \<Rightarrow> datetime option \<Rightarrow> string" where
  "estimate_crowd_level station_name scheduled_time =
     (case scheduled_time of
        None \<Rightarrow> ''normal''
      | Some t \<Rightarrow>
          (let hour = hour_of t;
               tests = map (name_contains station_name) major_stations
           in if None \<in> set tests then ''normal''
              else
                (let is_major_station = (Some True \<in> set tests)
                 in if (7 \<le> hour \<and> hour \<le> 9) \<or> (17 \<le> hour \<and> hour \<le> 19) then
                      (if is_major_station then ''high'' else ''medium'')
                    else if 22 \<le> hour \<or> hour \<le> 5 then ''low''
                    else (if is_major_station then ''medium'' else ''normal''))))"

text \<open>One entry of \<open>station_statuses\<close>; times are kept as instants.\<close>

record station_status =
  ss_station_name :: pyval
  ss_status :: string
  ss_scheduled_arrival :: "datetime option"
  ss_scheduled_departure :: "datetime option"
  ss_actual_arrival :: "datetime option"
  ss_actual_departure :: "datetime option"
  ss_delay_minutes :: int
  ss_halt_duration :: pyval
  ss_duration :: pyval
  ss_distance_from_start :: real
  ss_weather_condition :: string
  ss_crowd_level :: string

text \<open>
  The loop of \<open>_generate_station_statuses\<close> from stop \<open>i\<close> on. A stop without a city
  raises \<open>KeyError\<close> (\<open>None\<close>); the history keeps what the stops before it recorded.
\<close>

fun station_statuses_loop ::
  "float_ops \<Rightarrow> (pyval \<Rightarrow> pyval \<Rightarrow> real) \<Rightarrow> (nat \<Rightarrow> station_env) \<Rightarrow> dict list
     \<Rightarrow> datetime \<Rightarrow> nat \<Rightarrow> dict list \<Rightarrow> history \<Rightarrow> station_status list option \<times> history" where
  "station_statuses_loop F leg envs routes current_time i [] hp = (Some [], hp)"
| "station_statuses_loop F leg envs routes current_time i (route # rest) hp =
     (case map_of route ''city'' of
        None \<Rightarrow> (None, hp)
      | Some station_name \<Rightarrow>
          (let env = envs i;
               status = determine_station_status (scan_clock env) (int i) routes current_time;
               scheduled_arrival =
                 tg_parse_time_string (arrival_today env)
                   (case map_of route ''arrival_time'' of None \<Rightarrow> PNone | Some v \<Rightarrow> v);
               scheduled_departure =
                 tg_parse_time_string (departure_today env)
                   (case map_of route ''departure_time'' of None \<Rightarrow> PNone | Some v \<Rightarrow> v);
               (delay_info, hp1) =
                 simulate_station_delays F env hp station_name scheduled_arrival
                   scheduled_departure current_time;
               distance_from_start = calculate_distance_from_start F leg routes i;
               station_status =
                 \<lparr> ss_station_name = station_name,
                   ss_status = status,
                   ss_scheduled_arrival = scheduled_arrival,
                   ss_scheduled_departure = scheduled_departure,
                   ss_actual_arrival = si_actual_arrival delay_info,
                   ss_actual_departure = si_actual_departure delay_info,
                   ss_delay_minutes = si_delay_minutes delay_info,
                   ss_halt_duration = dict_get route ''halt'' (PStr ''---''),
                   ss_duration = dict_get route ''duration'' (PStr ''---''),
                   ss_distance_from_start = fround F 2 distance_from_start,
                   ss_weather_condition =
                     get_weather_condition (status_weather_now env) (status_weather_pick env),
                   ss_crowd_level = estimate_crowd_level station_name scheduled_arrival \<rparr>
           in case station_statuses_loop F leg envs routes current_time (Suc i) rest hp1 of
                (None, hp2) \<Rightarrow> (None, hp2)
              | (Some later, hp2) \<Rightarrow> (Some (station_status # later), hp2)))"

text \<open>\<open>_generate_station_statuses\<close>: the handler answers the empty list.\<close>

definition generate_station_statuses ::
  "float_ops \<Rightarrow> (pyval \<Rightarrow> pyval \<Rightarrow> real) \<Rightarrow> (nat \<Rightarrow> station_env) \<Rightarrow> history \<Rightarrow> dict list
     \<Rightarrow> datetime \<Rightarrow> station_status list \<times> history" where
  "generate_station_statuses F leg envs hp routes current_time =
     (case station_statuses_loop F leg envs routes current_time 0 routes hp of
        (None, hp') \<Rightarrow> ([], hp')
      | (Some station_statuses, hp') \<Rightarrow> (station_statuses, hp'))"

text \<open>\<open>_calculate_total_delay\<close>: \<open>max\<close> of the list of the stations' delays, and 0 from
  the handler when \<open>max\<close> raises \<open>ValueError\<close> on the empty list.\<close>

definition calculate_total_delay :: "station_status list \<Rightarrow> int" where
  "calculate_total_delay station_statuses =
     (case map ss_delay_minutes station_statuses of
        [] \<Rightarrow> 0
      | d # ds \<Rightarrow> fold max ds d)"

text \<open>
  What \<open>generate_train_status\<close> reads from the clock and the random generator beyond the
  stops: the readings inside the two position computations (the second one inside
  \<open>estimate_train_speed\<close>), the speed draw and the overall weather.
\<close>

record train_env =
  station_envs :: "nat \<Rightarrow> station_env"
  position_clock :: "nat \<Rightarrow> datetime"
  position_eta_today :: datetime
  speed_clock :: "nat \<Rightarrow> datetime"
  speed_eta_today :: datetime
  speed_jitter :: real
  overall_weather_now :: datetime
  overall_weather_pick :: pick

text \<open>\<open>position_info.get('eta_to_next', 'Unknown')\<close>.\<close>

datatype estimate = Unknown | NoEstimate | Estimate eta

text \<open>The status dictionary of \<open>generate_train_status\<close>.\<close>

record train_status =
  ts_train_number :: string
  ts_train_name :: pyval
  ts_station_statuses :: "station_status list"
  ts_current_speed :: real
  ts_distance_covered :: real
  ts_distance_to_next :: real
  ts_delay_minutes :: int
  ts_estimated_arrival :: estimate
  ts_progress_percentage :: real
  ts_current_station :: pyval
  ts_next_station :: pyval
  ts_weather_condition :: string
  ts_last_updated :: datetime

text \<open>
  \<open>generate_train_status\<close>, with the history of the generator's delay simulator passed
  through; \<open>current_time\<close> is its reading of the clock. \<open>Inl msg\<close> is the dictionary
  \<open>{"error": msg}\<close>. Where the position is an error dictionary, the \<open>get\<close> defaults
  fill the fields.
\<close>

definition generate_train_status ::
  "float_ops \<Rightarrow> (pyval \<Rightarrow> pyval \<Rightarrow> real) \<Rightarrow> train_env \<Rightarrow> history \<Rightarrow> schedule option
     \<Rightarrow> datetime \<Rightarrow> string \<Rightarrow> (string + train_status) \<times> history" where
  "generate_train_status F leg env hp sched current_time train_number =
     (case sched of
        None \<Rightarrow> (Inl ''Train schedule not found'', hp)
      | Some s \<Rightarrow>
          (let routes = sched_routes s;
               (station_statuses, hp') =
                 generate_station_statuses F leg (station_envs env) hp routes current_time;
               position_info =
                 calculate_train_position F leg (position_clock env) (position_eta_today env)
                   sched current_time;
               current_speed =
                 estimate_train_speed F leg (speed_clock env) (speed_eta_today env) sched
                   current_time (speed_jitter env)
           in (Inr \<lparr> ts_train_number = train_number,
                     ts_train_name =
                       (case sched_train_name s of None \<Rightarrow> PStr ''Unknown'' | Some n \<Rightarrow> n),
                     ts_station_statuses = station_statuses,
                     ts_current_speed = current_speed,
                     ts_distance_covered =
                       (case position_info of Inl e \<Rightarrow> 0 | Inr p \<Rightarrow> ps_distance_covered p),
                     ts_distance_to_next =
                       (case position_info of Inl e \<Rightarrow> 0 | Inr p \<Rightarrow> ps_distance_to_next p),
                     ts_delay_minutes = calculate_total_delay station_statuses,
                     ts_estimated_arrival =
                       (case position_info of
                          Inl e \<Rightarrow> Unknown
                        | Inr p \<Rightarrow> (case ps_eta_to_next p of
                                      None \<Rightarrow> NoEstimate | Some e \<Rightarrow> Estimate e)),
                     ts_progress_percentage =
                       (case position_info of Inl e \<Rightarrow> 0 | Inr p \<Rightarrow> ps_progress_percentage p),
                     ts_current_station =
                       (case position_info of
                          Inl e \<Rightarrow> PStr ''Unknown'' | Inr p \<Rightarrow> ps_current_station p),
                     ts_next_station =
                       (case position_info of
                          Inl e \<Rightarrow> PStr ''Unknown'' | Inr p \<Rightarrow> ps_next_station p),
                     ts_weather_condition =
                       get_weather_condition (overall_weather_now env) (overall_weather_pick env),
                     ts_last_updated = current_time \<rparr>, hp')))"

text \<open>An environment for evaluating the generator: every clock reading is 10:30 AM of
  the scenario day, every weather pick is the first, and the delay drawn at stop \<open>i\<close>
  is \<open>6 + 2 i\<close> minutes before the factors.\<close>

definition scenario_station_env :: "nat \<Rightarrow> station_env" where
  "scenario_station_env i =
     \<lparr> scan_clock = scenario_clock, arrival_today = at_clock 10 30,
       departure_today = at_clock 10 30, delay_weather_now = at_clock 10 30,
       delay_weather_pick = Pick0,
       arrival_draws = \<lparr> base_u = 0.1, base_minutes = 6 + 2 * int i, jitter = 1 \<rparr>,
       arrival_stamp = at_clock 10 30,
       departure_draws = \<lparr> base_u = 0.1, base_minutes = 6 + 2 * int i, jitter = 1 \<rparr>,
       departure_stamp = at_clock 10 30, status_weather_now = at_clock 10 30,
       status_weather_pick = Pick0 \<rparr>"

definition scenario_env :: train_env where
  "scenario_env =
     \<lparr> station_envs = scenario_station_env, position_clock = scenario_clock,
       position_eta_today = at_clock 10 30, speed_clock = scenario_clock,
       speed_eta_today = at_clock 10 30, speed_jitter = 1,
       overall_weather_now = at_clock 10 30, overall_weather_pick = Pick0 \<rparr>"

definition scenario_schedule :: schedule where
  "scenario_schedule = \<lparr> sched_train_name = Some (PStr ''Scenario Express''),
                          sched_routes = scenario_route \<rparr>"

section \<open>Crowd validation\<close>

text \<open>
  The store \<open>self.validations\<close>: per train, the dictionary that
  \<open>confirm_user_on_train\<close> creates, with its three entries as fields. A confirmation
  is a dictionary with the keys \<open>user_id\<close>, \<open>timestamp\<close>, \<open>station_name\<close> and
  \<open>coordinates\<close>.
\<close>

record train_bucket =
  confirmations :: "dict list"
  last_updated :: pyval
  total_confirmations :: int

type_synonym validations = "(string \<times> train_bucket) list"

definition confs_of :: "validations \<Rightarrow> string \<Rightarrow> dict list" where
  "confs_of v train_number =
     (case map_of v train_number of None \<Rightarrow> [] | Some b \<Rightarrow> confirmations b)"

definition total_of :: "validations \<Rightarrow> string \<Rightarrow> int" where
  "total_of v train_number =
     (case map_of v train_number of None \<Rightarrow> 0 | Some b \<Rightarrow> total_confirmations b)"

text \<open>The decimal text of a natural number and of an integer, as an f-string prints it.\<close>

fun show_nat :: "nat \<Rightarrow> string" where
  "show_nat n =
     (if n < 10 then [char_of (48 + n)]
      else show_nat (n div 10) @ [char_of (48 + n mod 10)])"

declare show_nat.simps [simp del]

definition show_int :: "int \<Rightarrow> string" where
  "show_int i = (if i < 0 then CHR ''-'' # show_nat (nat (- i)) else show_nat (nat i))"

text \<open>\<open>_get_active_confirmations\<close>: the confirmations whose time stamp parses and lies
  within the last two hours. The subtraction raises \<open>OverflowError\<close> within the first
  two hours of year 1, and the handler answers the empty list.\<close>

definition get_active_confirmations :: "datetime \<Rightarrow> dict list \<Rightarrow> dict list" where
  "get_active_confirmations now confs =
     (let cutoff_time = now - 2 * us_per_hour in
      if cutoff_time < 0 then []
      else filter (\<lambda>conf. case map_of conf ''timestamp'' of
                             Some (PIso conf_time) \<Rightarrow> conf_time > cutoff_time
                           | _ \<Rightarrow> False) confs)"

text \<open>\<open>_determine_crowd_level\<close>.\<close>

definition determine_crowd_level :: "int \<Rightarrow> string" where
  "determine_crowd_level active_count =
     (if active_count = 0 then ''low''
      else if active_count \<le> 5 then ''medium''
      else if active_count \<le> 15 then ''high''
      else ''very_high'')"

text \<open>\<open>get_train_crowd_data\<close>: the dictionary it builds, with its six keys.\<close>

definition get_train_crowd_data :: "validations \<Rightarrow> datetime \<Rightarrow> string \<Rightarrow> dict" where
  "get_train_crowd_data v now train_number =
     (case map_of v train_number of
        None \<Rightarrow>
          [(''train_number'', PStr train_number), (''total_confirmations'', PInt 0),
           (''active_confirmations'', PInt 0), (''crowd_level'', PStr ''low''),
           (''last_updated'', PNone), (''confirmations'', PList [])]
      | Some train_data \<Rightarrow>
          (let active_confirmations =
                 get_active_confirmations now (confirmations train_data);
               crowd_level = determine_crowd_level (int (length active_confirmations))
           in [(''train_number'', PStr train_number),
               (''total_confirmations'', PInt (total_confirmations train_data)),
               (''active_confirmations'', PInt (int (length active_confirmations))),
               (''crowd_level'', PStr crowd_level),
               (''last_updated'', last_updated train_data),
               (''confirmations'', PList (map PDict active_confirmations))]))"

text \<open>The dictionary of the handler of \<open>_calculate_crowd_metrics\<close>.\<close>

definition unknown_metrics :: dict where
  "unknown_metrics =
     [(''crowd_level'', PStr ''unknown''), (''confidence'', PStr ''none''),
      (''active_users'', PInt 0), (''average_time_since_confirmation'', PStr ''unknown''),
      (''data_freshness'', PStr ''unknown'')]"

text \<open>
  The sum of the ages in seconds of the time stamps, \<open>clock i\<close> being the reading of
  \<open>datetime.now()\<close> for the \<open>i\<close>-th of them; \<open>None\<close> when a time stamp is missing
  or does not parse.
\<close>

fun sum_ages ::
  "float_ops \<Rightarrow> (nat \<Rightarrow> datetime) \<Rightarrow> nat \<Rightarrow> pyval list \<Rightarrow> real \<Rightarrow> real option" where
  "sum_ages F clock i [] acc = Some acc"
| "sum_ages F clock i (conf # rest) acc =
     (case conf of
        PDict d \<Rightarrow>
          (case map_of d ''timestamp'' of
             Some (PIso ts) \<Rightarrow>
               sum_ages F clock (Suc i) rest
                 (fadd F acc (fdiv F (of_int (clock i - ts)) 1000000))
           | _ \<Rightarrow> None)
      | _ \<Rightarrow> None)"

text \<open>\<open>_calculate_crowd_metrics\<close>: the confidence is read off the number of active
  confirmations.\<close>

definition calculate_crowd_metrics ::
  "float_ops \<Rightarrow> validations \<Rightarrow> datetime \<Rightarrow> (nat \<Rightarrow> datetime) \<Rightarrow> string \<Rightarrow> dict" where
  "calculate_crowd_metrics F v now clock train_number =
     (let crowd_data = get_train_crowd_data v now train_number in
      case (map_of crowd_data ''active_confirmations'', map_of crowd_data ''confirmations'',
            map_of crowd_data ''crowd_level'') of
        (Some (PInt active_count), Some (PList confs), Some crowd_level) \<Rightarrow>
          (let confidence =
                 (if active_count = 0 then ''none''
                  else if active_count \<le> 3 then ''low''
                  else if active_count \<le> 10 then ''medium''
                  else ''high'');
               avg_minutes_ago =
                 (if confs \<noteq> [] then
                    (case sum_ages F clock 0 confs 0 of
                       None \<Rightarrow> None
                     | Some age_sum \<Rightarrow>
                         Some (py_int (fdiv F (fdiv F age_sum (of_nat (length confs))) 60)))
                  else Some 0)
           in case avg_minutes_ago of
                None \<Rightarrow> unknown_metrics
              | Some m \<Rightarrow>
                  [(''crowd_level'', crowd_level),
                   (''confidence'', PStr confidence),
                   (''active_users'', PInt active_count),
                   (''average_time_since_confirmation'', PStr (show_int m @ '' minutes ago'')),
                   (''data_freshness'',
                      PStr (if m < 30 then ''high'' else if m < 60 then ''medium'' else ''low''))])
      | _ \<Rightarrow> unknown_metrics)"

text \<open>The index of the first confirmation of the user, as the search loop of
  \<open>confirm_user_on_train\<close> finds it.\<close>

fun find_confirmation :: "string \<Rightarrow> dict list \<Rightarrow> nat option" where
  "find_confirmation user_id [] = None"
| "find_confirmation user_id (conf # rest) =
     (if map_of conf ''user_id'' = Some (PStr user_id) then Some 0
      else map_option Suc (find_confirmation user_id rest))"

text \<open>\<open>existing_confirmation.update({...})\<close>.\<close>

definition refresh_confirmation :: "datetime \<Rightarrow> pyval \<Rightarrow> pyval \<Rightarrow> dict \<Rightarrow> dict" where
  "refresh_confirmation now station_name coordinates conf =
     AList.update ''coordinates'' coordinates
       (AList.update ''station_name'' station_name
          (AList.update ''timestamp'' (PIso now) conf))"

record confirm_result =
  cr_success :: bool
  cr_message :: string
  cr_train_number :: string
  cr_user_id :: string
  cr_timestamp :: pyval
  cr_crowd_metrics :: dict

text \<open>
  \<open>confirm_user_on_train\<close>, returning the answer and the new store. \<open>now\<close> is the
  reading of the clock that becomes the time stamp, \<open>metrics_now\<close> and
  \<open>metrics_clock\<close> are the later readings inside the metrics. Writing the store to
  its file changes nothing in memory, and its failure is swallowed.
\<close>

definition confirm_user_on_train ::
  "float_ops \<Rightarrow> validations \<Rightarrow> datetime \<Rightarrow> datetime \<Rightarrow> (nat \<Rightarrow> datetime) \<Rightarrow> string \<Rightarrow> string
     \<Rightarrow> pyval \<Rightarrow> pyval \<Rightarrow> confirm_result \<times> validations" where
  "confirm_user_on_train F v now metrics_now metrics_clock train_number user_id station_name
       coordinates =
     (let timestamp = PIso now;
          train_data =
            (case map_of v train_number of
               None \<Rightarrow> \<lparr> confirmations = [], last_updated = timestamp,
                          total_confirmations = 0 \<rparr>
             | Some b \<Rightarrow> b);
          (train_data', message) =
            (case find_confirmation user_id (confirmations train_data) of
               Some i \<Rightarrow>
                 (train_data \<lparr> confirmations :=
                     (confirmations train_data)
                       [i := refresh_confirmation now station_name coordinates
                               (confirmations train_data ! i)] \<rparr>,
                  ''Confirmation updated'')
             | None \<Rightarrow>
                 (train_data \<lparr> confirmations :=
                     confirmations train_data @
                       [[(''user_id'', PStr user_id), (''timestamp'', timestamp),
                         (''station_name'', station_name), (''coordinates'', coordinates)]],
                     total_confirmations := total_confirmations train_data + 1 \<rparr>,
                  ''Confirmation added''));
          v' = AList.update train_number (train_data' \<lparr> last_updated := timestamp \<rparr>) v
      in (\<lparr> cr_success = True, cr_message = message, cr_train_number = train_number,
            cr_user_id = user_id, cr_timestamp = timestamp,
            cr_crowd_metrics =
              calculate_crowd_metrics F v' metrics_now metrics_clock train_number \<rparr>, v'))"

text \<open>The invariant of the store: in every train's bucket, at most one confirmation
  per user.\<close>

definition user_count :: "string \<Rightarrow> dict list \<Rightarrow> nat" where
  "user_count user_id confs =
     length (filter (\<lambda>conf. map_of conf ''user_id'' = Some (PStr user_id)) confs)"

definition one_per_user :: "validations \<Rightarrow> bool" where
  "one_per_user v = (\<forall>train_number user_id. user_count user_id (confs_of v train_number) \<le> 1)"

text \<open>
  Python arithmetic on a value of a status dictionary: \<open>x + k\<close> for an integer \<open>k\<close>,
  \<open>max(0, x)\<close> and \<open>x > k\<close>. \<open>None\<close> is the \<open>TypeError\<close> of a value that is not a
  number.
\<close>

definition py_add_int :: "float_ops \<Rightarrow> pyval \<Rightarrow> int \<Rightarrow> pyval option" where
  "py_add_int F x k =
     (case x of
        PInt n \<Rightarrow> Some (PInt (n + k))
      | PBool b \<Rightarrow> Some (PInt ((if b then 1 else 0) + k))
      | PFloat r \<Rightarrow> Some (PFloat (fadd F r (of_int k)))
      | _ \<Rightarrow> None)"

definition py_max0 :: "pyval \<Rightarrow> pyval option" where
  "py_max0 x =
     (case x of
        PInt n \<Rightarrow> Some (PInt (max 0 n))
      | PBool b \<Rightarrow> Some (if b then PBool True else PInt 0)
      | PFloat r \<Rightarrow> Some (if r > 0 then PFloat r else PInt 0)
      | _ \<Rightarrow> None)"

definition py_gt_int :: "pyval \<Rightarrow> int \<Rightarrow> bool option" where
  "py_gt_int x k =
     (case x of
        PInt n \<Rightarrow> Some (n > k)
      | PBool b \<Rightarrow> Some ((if b then 1 else 0) > k)
      | PFloat r \<Rightarrow> Some (r > of_int k)
      | _ \<Rightarrow> None)"

text \<open>
  \<open>_calculate_crowd_delay_adjustment\<close>. The three draws are what
  \<open>random.randint(-2, 2)\<close>, \<open>random.randint(-5, 5)\<close> and
  \<open>random.randint(-8, 8)\<close> return in the branch that is taken. The second scaling
  test stands behind the first in an \<open>if/elif\<close>, as in the source. The handler
  answers 0.
\<close>

record crowd_draws =
  draw_small :: int
  draw_medium :: int
  draw_large :: int

definition calculate_crowd_delay_adjustment :: "float_ops \<Rightarrow> dict \<Rightarrow> crowd_draws \<Rightarrow> int" where
  "calculate_crowd_delay_adjustment F crowd_data drawn =
     (case (map_of crowd_data ''active_confirmations'', map_of crowd_data ''crowd_level'') of
        (Some active_users, Some crowd_level) \<Rightarrow>
          (let adjustment =
                 (if crowd_level = PStr ''low'' then 0
                  else if crowd_level = PStr ''medium'' then draw_small drawn
                  else if crowd_level = PStr ''high'' then draw_medium drawn
                  else draw_large drawn)
           in case py_gt_int active_users 10 of
                None \<Rightarrow> 0
              | Some True \<Rightarrow> py_int (fmul F (of_int adjustment) 1.5)
              | Some False \<Rightarrow>
                  (case py_gt_int active_users 20 of
                     None \<Rightarrow> 0
                   | Some True \<Rightarrow> py_int (fmul F (of_int adjustment) 2.0)
                   | Some False \<Rightarrow> adjustment))
      | _ \<Rightarrow> 0)"

text \<open>
  \<open>adjust_train_status_with_crowd_data\<close>. The function reads
  \<open>crowd_data['confidence']\<close> from the dictionary of \<open>get_train_crowd_data\<close>; every
  \<open>KeyError\<close> and \<open>TypeError\<close> inside lands in the handler, which returns
  \<open>base_status\<close>.
\<close>

definition adjust_train_status_with_crowd_data ::
  "float_ops \<Rightarrow> validations \<Rightarrow> datetime \<Rightarrow> crowd_draws \<Rightarrow> string \<Rightarrow> dict \<Rightarrow> dict" where
  "adjust_train_status_with_crowd_data F v now drawn train_number base_status =
     (let crowd_data = get_train_crowd_data v now train_number in
      if map_of crowd_data ''error'' \<noteq> None then base_status
      else
        (case map_of crowd_data ''confidence'' of
           None \<Rightarrow> base_status
         | Some confidence \<Rightarrow>
             if confidence = PStr ''medium'' \<or> confidence = PStr ''high'' then
               (let crowd_delay_adjustment =
                      calculate_crowd_delay_adjustment F crowd_data drawn;
                    delayed =
                      (case map_of base_status ''delay_minutes'' of
                         None \<Rightarrow> Some base_status
                       | Some d \<Rightarrow>
                           (case py_add_int F d crowd_delay_adjustment of
                              None \<Rightarrow> None
                            | Some s \<Rightarrow>
                                (case py_max0 s of
                                   None \<Rightarrow> None
                                 | Some m \<Rightarrow>
                                     Some (AList.update ''delay_minutes'' m base_status))))
                in case (delayed, map_of crowd_data ''active_confirmations'',
                         map_of crowd_data ''crowd_level'', map_of crowd_data ''last_updated'') of
                     (Some adjusted_status, Some active, Some level, Some updated) \<Rightarrow>
                       (let adjusted_status =
                              AList.update ''crowd_validation''
                                (PDict [(''confidence'', confidence), (''active_users'', active),
                                        (''crowd_level'', level), (''last_updated'', updated)])
                                adjusted_status
                        in if confidence = PStr ''high'' then
                             (case py_gt_int active 5 of
                                None \<Rightarrow> base_status
                              | Some True \<Rightarrow>
                                  AList.update ''crowd_eta_confidence'' (PStr ''high'')
                                    (AList.update ''eta_adjusted_by_crowd'' (PBool True)
                                       adjusted_status)
                              | Some False \<Rightarrow> adjusted_status)
                           else adjusted_status)
                   | _ \<Rightarrow> base_status)
             else base_status))"

text \<open>A store for evaluation: train 701 with five confirmations stamped 10:00 AM of the
  scenario day, read at 10:30 AM.\<close>

definition five_confirmations :: validations where
  "five_confirmations =
     [(''701'',
       \<lparr> confirmations =
           map (\<lambda>u. [(''user_id'', PStr u), (''timestamp'', PIso (at_clock 10 0)),
                      (''station_name'', PStr ''Tongi''), (''coordinates'', PNone)])
               [''u1'', ''u2'', ''u3'', ''u4'', ''u5''],
         last_updated = PIso (at_clock 10 0),
         total_confirmations = 5 \<rparr>)]"

definition plus_two :: crowd_draws where
  "plus_two = \<lparr> draw_small = 2, draw_medium = 2, draw_large = 2 \<rparr>"

text \<open>The dictionary of a new confirmation.\<close>

definition new_confirmation :: "string \<Rightarrow> datetime \<Rightarrow> pyval \<Rightarrow> pyval \<Rightarrow> dict" where
  "new_confirmation user_id now station_name coordinates =
     [(''user_id'', PStr user_id), (''timestamp'', PIso now),
      (''station_name'', station_name), (''coordinates'', coordinates)]"

section \<open>Verified properties\<close>

subsection \<open>Evaluation of the clock-string parser\<close>

lemmas eval_defs = departs_after_def pc_parse_time_string_def tg_parse_time_string_def
  strptime_IMp_def rx_hour12_def rx_colon_def
  rx_minute_def rx_ampm_def hour24_def digit_val_def is_space_def py_strip_def
  at_clock_def replace_hm_def scenario_day_def us_per_day_def us_per_hour_def us_per_minute_def
  scenario_clock_def long_route_def scenario_route_def

lemma all_less_2: "(\<forall>j<(2::nat). P j) = (P 0 \<and> P 1)"
  by (auto simp: less_Suc_eq numeral_2_eq_2)

lemma all_less_4: "(\<forall>j<(4::nat). P j) = (P 0 \<and> P 1 \<and> P 2 \<and> P 3)"
proof -
  have "\<And>j::nat. (j < 4) = (j = 0 \<or> j = 1 \<or> j = 2 \<or> j = 3)" by arith
  then show ?thesis by auto
qed

lemma dash_fails: "strptime_IMp (py_strip ''---'') = None"
  by code_simp

text \<open>On a true value the two parsers give the same answer: the placeholder the
  timeline's parser rejects up front is a string \<open>strptime\<close> rejects as well.\<close>

lemma tg_parse_eq:
  assumes "truthy v"
  shows "tg_parse_time_string today v = pc_parse_time_string today v"
proof (cases "v = PStr ''---''")
  case True
  then show ?thesis
    by (simp add: tg_parse_time_string_def pc_parse_time_string_def dash_fails)
next
  case False
  with assms show ?thesis
    by (cases v) (simp_all add: tg_parse_time_string_def pc_parse_time_string_def)
qed

subsection \<open>The scan loops\<close>

lemma pc_scan_step:
  "pc_scan clock now i (route # rest) =
     (if departs_after (clock i) now route then Some (max 0 (int i - 1))
      else pc_scan clock now (Suc i) rest)"
  by (simp add: departs_after_def split: option.splits)

lemma tg_scan_eq: "tg_scan clock now i routes = pc_scan clock now i routes"
  by (induction routes arbitrary: i) (auto simp: tg_parse_eq split: option.splits)

lemma pc_scan_none:
  "(\<forall>j<length rs. \<not> departs_after (clock (k + j)) now (rs ! j)) \<Longrightarrow>
   pc_scan clock now k rs = None"
proof (induction rs arbitrary: k)
  case Nil
  then show ?case by simp
next
  case (Cons r rs)
  have h0: "\<not> departs_after (clock k) now r"
    using Cons.prems by force
  have "\<forall>j<length rs. \<not> departs_after (clock (Suc k + j)) now (rs ! j)"
    using Cons.prems by force
  then have "pc_scan clock now (Suc k) rs = None"
    by (rule Cons.IH)
  with h0 show ?case
    by (simp only: pc_scan_step if_False)
qed

lemma pc_scan_first:
  "i < length rs \<Longrightarrow> departs_after (clock (k + i)) now (rs ! i) \<Longrightarrow>
   (\<forall>j<i. \<not> departs_after (clock (k + j)) now (rs ! j)) \<Longrightarrow>
   pc_scan clock now k rs = Some (max 0 (int (k + i) - 1))"
proof (induction rs arbitrary: k i)
  case Nil
  then show ?case by simp
next
  case (Cons r rs)
  show ?case
  proof (cases i)
    case 0
    with Cons.prems show ?thesis by (simp only: pc_scan_step) simp
  next
    case (Suc i')
    have h0: "\<not> departs_after (clock k) now r"
      using Cons.prems(3) Suc by force
    have a: "i' < length rs" using Cons.prems(1) Suc by simp
    have b: "departs_after (clock (Suc k + i')) now (rs ! i')"
      using Cons.prems(2) Suc by simp
    have c: "\<forall>j<i'. \<not> departs_after (clock (Suc k + j)) now (rs ! j)"
    proof (intro allI impI)
      fix j assume "j < i'"
      then have "Suc j < i" using Suc by simp
      then have "\<not> departs_after (clock (k + Suc j)) now ((r # rs) ! Suc j)"
        using Cons.prems(3) by blast
      then show "\<not> departs_after (clock (Suc k + j)) now (rs ! j)" by simp
    qed
    have "pc_scan clock now (Suc k) rs = Some (max 0 (int (Suc k + i') - 1))"
      by (rule Cons.IH[OF a b c])
    with h0 Suc show ?thesis
      by (simp only: pc_scan_step if_False) simp
  qed
qed

lemma find_current_station_index_first:
  assumes "i < length routes" "departs_after (clock i) now (routes ! i)"
    "\<forall>j<i. \<not> departs_after (clock j) now (routes ! j)"
  shows "find_current_station_index clock routes now = Some (max 0 (int i - 1))"
  using pc_scan_first[of i routes clock 0 now] assms
  by (simp add: find_current_station_index_def)

lemma find_current_station_index_none:
  assumes "\<forall>j<length routes. \<not> departs_after (clock j) now (routes ! j)"
  shows "find_current_station_index clock routes now = Some (int (length routes) - 1)"
  using pc_scan_none[of routes clock 0 now] assms
  by (simp add: find_current_station_index_def)

lemma departs_after_parsed:
  "departs_after today now route \<Longrightarrow>
   \<exists>v d. map_of route ''departure_time'' = Some v \<and>
         pc_parse_time_string today v = Some d \<and> now < d"
  by (auto simp: departs_after_def split: option.splits)

lemma scans_equal:
  "find_current_station_index clock routes now = Some (find_current_position clock routes now)"
  by (simp add: find_current_station_index_def find_current_position_def tg_scan_eq
      split: option.splits)

text \<open>
  Claim C1. For every route, every current time and every reading of the system clock,
  the position calculator's scan returns \<open>max 0 (i - 1)\<close> for the first index \<open>i\<close>
  whose departure parses to an instant strictly after the current time, and
  \<open>len(route) - 1\<close> when no stop has such a departure. In particular it returns
  \<open>len(route) - 1\<close> when every departure that parses is not after the current time,
  and 0 when the first stop's departure is after it.
\<close>

theorem find_current_station_index_scan:
  "(i < length routes \<and> departs_after (clock i) now (routes ! i) \<and>
      (\<forall>j<i. \<not> departs_after (clock j) now (routes ! j))
     \<longrightarrow> find_current_station_index clock routes now = Some (max 0 (int i - 1)))
   \<and> ((\<forall>j<length routes. \<not> departs_after (clock j) now (routes ! j))
     \<longrightarrow> find_current_station_index clock routes now = Some (int (length routes) - 1))
   \<and> ((\<forall>j<length routes. \<forall>v d. map_of (routes ! j) ''departure_time'' = Some v \<and>
          pc_parse_time_string (clock j) v = Some d \<longrightarrow> d \<le> now)
     \<longrightarrow> find_current_station_index clock routes now = Some (int (length routes) - 1))
   \<and> (routes \<noteq> [] \<and> departs_after (clock 0) now (routes ! 0)
     \<longrightarrow> find_current_station_index clock routes now = Some 0)"
proof (intro conjI impI)
  assume "i < length routes \<and> departs_after (clock i) now (routes ! i) \<and>
      (\<forall>j<i. \<not> departs_after (clock j) now (routes ! j))"
  then show "find_current_station_index clock routes now = Some (max 0 (int i - 1))"
    using find_current_station_index_first by blast
next
  assume "\<forall>j<length routes. \<not> departs_after (clock j) now (routes ! j)"
  then show "find_current_station_index clock routes now = Some (int (length routes) - 1)"
    by (rule find_current_station_index_none)
next
  assume past: "\<forall>j<length routes. \<forall>v d. map_of (routes ! j) ''departure_time'' = Some v \<and>
          pc_parse_time_string (clock j) v = Some d \<longrightarrow> d \<le> now"
  have "\<forall>j<length routes. \<not> departs_after (clock j) now (routes ! j)"
  proof (intro allI impI notI)
    fix j assume j: "j < length routes" and "departs_after (clock j) now (routes ! j)"
    then obtain v d where "map_of (routes ! j) ''departure_time'' = Some v"
      "pc_parse_time_string (clock j) v = Some d" "now < d"
      using departs_after_parsed by blast
    with past j show False by force
  qed
  then show "find_current_station_index clock routes now = Some (int (length routes) - 1)"
    by (rule find_current_station_index_none)
next
  assume "routes \<noteq> [] \<and> departs_after (clock 0) now (routes ! 0)"
  then show "find_current_station_index clock routes now = Some 0"
    using find_current_station_index_first[of 0 routes clock now] by simp
qed

theorem find_current_station_index_scan_witness:
  "find_current_station_index scenario_clock long_route (at_clock 10 30) = Some 1
   \<and> find_current_station_index scenario_clock long_route (at_clock 23 0) = Some 3
   \<and> find_current_station_index scenario_clock long_route (at_clock 8 0) = Some 0"
proof -
  have len: "length long_route = 4" by (simp add: long_route_def)
  have a: "2 < length long_route \<and>
      departs_after (scenario_clock 2) (at_clock 10 30) (long_route ! 2) \<and>
      (\<forall>j<2. \<not> departs_after (scenario_clock j) (at_clock 10 30) (long_route ! j))"
    unfolding all_less_2 by (simp add: eval_defs)
  have b: "\<forall>j<length long_route.
      \<not> departs_after (scenario_clock j) (at_clock 23 0) (long_route ! j)"
    unfolding len all_less_4 by (simp add: eval_defs)
  have c: "long_route \<noteq> [] \<and> departs_after (scenario_clock 0) (at_clock 8 0) (long_route ! 0)"
    by (simp add: eval_defs)
  from find_current_station_index_scan[of 2 long_route scenario_clock "at_clock 10 30"] a
  have r1: "find_current_station_index scenario_clock long_route (at_clock 10 30) = Some 1"
    by simp
  from find_current_station_index_scan[of 0 long_route scenario_clock "at_clock 23 0"] b len
  have r2: "find_current_station_index scenario_clock long_route (at_clock 23 0) = Some 3"
    by simp
  from find_current_station_index_scan[of 0 long_route scenario_clock "at_clock 8 0"] c
  have r3: "find_current_station_index scenario_clock long_route (at_clock 8 0) = Some 0"
    by simp
  from r1 r2 r3 show ?thesis by simp
qed

text \<open>
  Claim C7. The position calculator's scan and the timeline generator's scan return the
  same index for every route and every current time, given the same readings of the
  system clock: both return \<open>max 0 (i - 1)\<close> for the first stop whose parsed
  departure is strictly after the current time, and \<open>len(route) - 1\<close> when there is
  none.
\<close>

theorem position_scans_agree:
  "find_current_station_index clock routes now = Some (find_current_position clock routes now)
   \<and> (i < length routes \<and> departs_after (clock i) now (routes ! i) \<and>
        (\<forall>j<i. \<not> departs_after (clock j) now (routes ! j))
      \<longrightarrow> find_current_position clock routes now = max 0 (int i - 1))
   \<and> ((\<forall>j<length routes. \<not> departs_after (clock j) now (routes ! j))
      \<longrightarrow> find_current_position clock routes now = int (length routes) - 1)"
proof (intro conjI impI)
  show "find_current_station_index clock routes now =
        Some (find_current_position clock routes now)"
    by (rule scans_equal)
next
  assume "i < length routes \<and> departs_after (clock i) now (routes ! i) \<and>
        (\<forall>j<i. \<not> departs_after (clock j) now (routes ! j))"
  then have "find_current_station_index clock routes now = Some (max 0 (int i - 1))"
    using find_current_station_index_first by blast
  then show "find_current_position clock routes now = max 0 (int i - 1)"
    by (simp add: scans_equal)
next
  assume "\<forall>j<length routes. \<not> departs_after (clock j) now (routes ! j)"
  then have "find_current_station_index clock routes now = Some (int (length routes) - 1)"
    by (rule find_current_station_index_none)
  then show "find_current_position clock routes now = int (length routes) - 1"
    by (simp add: scans_equal)
qed

theorem position_scans_agree_witness:
  "find_current_station_index scenario_clock long_route (at_clock 10 30) =
     Some (find_current_position scenario_clock long_route (at_clock 10 30))
   \<and> find_current_position scenario_clock long_route (at_clock 10 30) = 1
   \<and> find_current_position scenario_clock long_route (at_clock 23 0) = 3"
proof -
  have len: "length long_route = 4" by (simp add: long_route_def)
  have a: "2 < length long_route \<and>
      departs_after (scenario_clock 2) (at_clock 10 30) (long_route ! 2) \<and>
      (\<forall>j<2. \<not> departs_after (scenario_clock j) (at_clock 10 30) (long_route ! j))"
    unfolding all_less_2 by (simp add: eval_defs)
  have b: "\<forall>j<length long_route.
      \<not> departs_after (scenario_clock j) (at_clock 23 0) (long_route ! j)"
    unfolding len all_less_4 by (simp add: eval_defs)
  from position_scans_agree[of scenario_clock long_route "at_clock 10 30" 2] a
  have r1: "find_current_station_index scenario_clock long_route (at_clock 10 30) =
     Some (find_current_position scenario_clock long_route (at_clock 10 30))
     \<and> find_current_position scenario_clock long_route (at_clock 10 30) = 1"
    by simp
  from position_scans_agree[of scenario_clock long_route "at_clock 23 0" 0] b len
  have r2: "find_current_position scenario_clock long_route (at_clock 23 0) = 3"
    by simp
  from r1 r2 show ?thesis by simp
qed

text \<open>
  Claim C2, as amended. For every route and current time, with the current position
  computed by the timeline generator's scan, the stop at index \<open>i\<close> is tagged
  \<open>completed\<close> when \<open>i\<close> is below the current position, \<open>current\<close> when equal,
  \<open>next\<close> when one above and \<open>upcoming\<close> otherwise. On the three-stop scenario
  route at 10:30 AM no stop has a departure after the current time (the terminal has
  none), so the current position is the last index 2 and the tags are
  completed, completed, current.
\<close>

theorem station_status_tags:
  "(station_idx < find_current_position clock routes now
      \<longrightarrow> determine_station_status clock station_idx routes now = ''completed'')
   \<and> (station_idx = find_current_position clock routes now
      \<longrightarrow> determine_station_status clock station_idx routes now = ''current'')
   \<and> (station_idx = find_current_position clock routes now + 1
      \<longrightarrow> determine_station_status clock station_idx routes now = ''next'')
   \<and> (find_current_position clock routes now + 1 < station_idx
      \<longrightarrow> determine_station_status clock station_idx routes now = ''upcoming'')
   \<and> find_current_position scenario_clock scenario_route (at_clock 10 30) = 2
   \<and> [determine_station_status scenario_clock 0 scenario_route (at_clock 10 30),
       determine_station_status scenario_clock 1 scenario_route (at_clock 10 30),
       determine_station_status scenario_clock 2 scenario_route (at_clock 10 30)]
      = [''completed'', ''completed'', ''current'']"
proof -
  have p: "find_current_position scenario_clock scenario_route (at_clock 10 30) = 2"
    by (simp add: find_current_position_def eval_defs)
  show ?thesis
    by (simp add: determine_station_status_def Let_def p)
qed

theorem station_status_tags_witness:
  "[determine_station_status scenario_clock 0 long_route (at_clock 10 30),
    determine_station_status scenario_clock 1 long_route (at_clock 10 30),
    determine_station_status scenario_clock 2 long_route (at_clock 10 30),
    determine_station_status scenario_clock 3 long_route (at_clock 10 30)]
   = [''completed'', ''current'', ''next'', ''upcoming'']"
proof -
  have p: "find_current_position scenario_clock long_route (at_clock 10 30) = 1"
    by (simp add: find_current_position_def eval_defs)
  from station_status_tags[of 0 scenario_clock long_route "at_clock 10 30"]
    station_status_tags[of 1 scenario_clock long_route "at_clock 10 30"]
    station_status_tags[of 2 scenario_clock long_route "at_clock 10 30"]
    station_status_tags[of 3 scenario_clock long_route "at_clock 10 30"]
  show ?thesis by (simp add: p)
qed

theorem station_status_scenario_counterexample:
  "[determine_station_status scenario_clock 0 scenario_route (at_clock 10 30),
    determine_station_status scenario_clock 1 scenario_route (at_clock 10 30),
    determine_station_status scenario_clock 2 scenario_route (at_clock 10 30)]
   \<noteq> [''completed'', ''current'', ''next'']"
proof -
  have p: "find_current_position scenario_clock scenario_route (at_clock 10 30) = 2"
    by (simp add: find_current_position_def eval_defs)
  show ?thesis
    by (simp add: determine_station_status_def Let_def p)
qed
subsection \<open>The delay simulator\<close>

lemmas sim_defs = simulate_delay_def calculate_base_delay_def dict_get_def weather_factors_def
  get_time_factor_def get_day_factor_def day_factors_def day_name_def weekday_def hour_of_def
  get_station_factor_def station_delay_factors_def py_lower_def py_int_def add_minutes_def
  datetime_max_def exact_ops_def update_historical_patterns_def fallback_report_def
  ten_minute_draws_def no_delay_draws_def





lemma bucket_of_update:
  "bucket_of (update_historical_patterns hp train station d stamp) train station =
     (let appended = bucket_of hp train station @ [\<lparr> delay = d, timestamp = stamp \<rparr>]
      in if length appended > 100 then tl appended else appended)"
  by (simp add: bucket_of_def update_historical_patterns_def Let_def update_conv'
      split: option.splits)

lemma update_preserves_inv:
  assumes "history_inv hp"
  shows "history_inv (update_historical_patterns hp train station d stamp)"
  unfolding history_inv_def
proof (intro allI impI)
  fix t ss s b
  assume h: "map_of (update_historical_patterns hp train station d stamp) t = Some ss \<and>
             map_of ss s = Some b"
  show "length b \<le> 100"
  proof (cases "t = train \<and> s = station")
    case True
    with h have "b = bucket_of (update_historical_patterns hp train station d stamp) train station"
      by (simp add: bucket_of_def)
    moreover have "length (bucket_of hp train station) \<le> 100"
      using assms by (auto simp: history_inv_def bucket_of_def split: option.splits)
    ultimately show ?thesis
      by (simp add: bucket_of_update Let_def)
  next
    case False
    with h have "\<exists>ss'. map_of hp t = Some ss' \<and> map_of ss' s = Some b"
      by (auto simp: update_historical_patterns_def Let_def update_conv'
          split: if_splits option.splits)
    with assms show ?thesis
      by (auto simp: history_inv_def)
  qed
qed

lemma simulate_delay_history:
  "snd (simulate_delay F dr stamp hp train station sched now weather) = hp \<or>
   (\<exists>s d. snd (simulate_delay F dr stamp hp train station sched now weather) =
       update_historical_patterns hp train s d stamp)"
  by (cases station) (auto simp: simulate_delay_def Let_def split: option.splits)

lemma reachable_inv: "reachable F hp \<Longrightarrow> history_inv hp"
proof (induction rule: reachable.induct)
  case reachable_init
  then show ?case by (simp add: history_inv_def)
next
  case (reachable_step hp dr stamp train station sched now weather rep hp')
  from simulate_delay_history[of F dr stamp hp train station sched now weather]
    reachable_step.hyps(2)
  have "hp' = hp \<or> (\<exists>s d. hp' = update_historical_patterns hp train s d stamp)"
    by simp
  with reachable_step.IH show ?case
    by (auto intro: update_preserves_inv)
qed

text \<open>
  Claim C4. In every history reachable by calls of \<open>simulate_delay\<close>, every list of
  observations of a train at a station holds at most 100 entries. Appending to a list of
  100 evicts its oldest entry and keeps the others in order, the new one last; appending
  to a shorter list evicts nothing.
\<close>

theorem history_bucket_bounded:
  "(reachable F hp \<and> map_of hp train = Some stations \<and> map_of stations station = Some b
      \<longrightarrow> length b \<le> 100)
   \<and> (length (bucket_of hp train station) = 100
      \<longrightarrow> bucket_of (update_historical_patterns hp train station d stamp) train station
          = tl (bucket_of hp train station) @ [\<lparr> delay = d, timestamp = stamp \<rparr>])
   \<and> (length (bucket_of hp train station) < 100
      \<longrightarrow> bucket_of (update_historical_patterns hp train station d stamp) train station
          = bucket_of hp train station @ [\<lparr> delay = d, timestamp = stamp \<rparr>])"
proof (intro conjI impI)
  assume "reachable F hp \<and> map_of hp train = Some stations \<and> map_of stations station = Some b"
  then show "length b \<le> 100"
    using reachable_inv[of F hp] by (auto simp: history_inv_def)
next
  assume h: "length (bucket_of hp train station) = 100"
  then have "bucket_of hp train station \<noteq> []" by auto
  with h show "bucket_of (update_historical_patterns hp train station d stamp) train station
          = tl (bucket_of hp train station) @ [\<lparr> delay = d, timestamp = stamp \<rparr>]"
    by (simp add: bucket_of_update Let_def)
next
  assume "length (bucket_of hp train station) < 100"
  then show "bucket_of (update_historical_patterns hp train station d stamp) train station
          = bucket_of hp train station @ [\<lparr> delay = d, timestamp = stamp \<rparr>]"
    by (simp add: bucket_of_update Let_def)
qed

lemma simulate_n_step:
  "simulate_n (Suc n) = update_historical_patterns (simulate_n n) ''701'' ''Tongi'' 0 (int (Suc n))"
  by (simp add: sim_defs eval_defs Let_def)

lemma reachable_simulate_n: "reachable exact_ops (simulate_n n)"
proof (induction n)
  case 0
  show ?case by (simp add: reachable_init)
next
  case (Suc n)
  show ?case
    by (rule reachable_step[OF Suc, of no_delay_draws "int (Suc n)" "''701''" "PStr ''Tongi''"
          "at_clock 10 5" "at_clock 10 30" "''clear''"
          "fst (simulate_delay exact_ops no_delay_draws (int (Suc n)) (simulate_n n)
            ''701'' (PStr ''Tongi'') (at_clock 10 5) (at_clock 10 30) ''clear'')"]) simp
qed

lemma bucket_simulate_n_small:
  "n \<le> 100 \<Longrightarrow> map timestamp (bucket_of (simulate_n n) ''701'' ''Tongi'') = map int [1..<Suc n]"
proof (induction n)
  case 0
  show ?case by (simp add: bucket_of_def)
next
  case (Suc n)
  then have ih: "map timestamp (bucket_of (simulate_n n) ''701'' ''Tongi'') = map int [1..<Suc n]"
    by simp
  then have "length (map timestamp (bucket_of (simulate_n n) ''701'' ''Tongi'')) =
             length (map int [1..<Suc n])"
    by (rule arg_cong)
  then have "length (bucket_of (simulate_n n) ''701'' ''Tongi'') = n"
    by (simp del: upt_Suc)
  with Suc.prems ih show ?case
    by (simp only: simulate_n_step bucket_of_update Let_def) simp
qed

lemma bucket_simulate_100:
  "map timestamp (bucket_of (simulate_n 100) ''701'' ''Tongi'') = map int [1..<101]"
  using bucket_simulate_n_small[of 100] by simp

theorem history_bucket_bounded_witness:
  "length (bucket_of (simulate_n 101) ''701'' ''Tongi'') \<le> 100
   \<and> map timestamp (bucket_of (simulate_n 101) ''701'' ''Tongi'') = map int [2..<102]
   \<and> map timestamp (bucket_of (simulate_n 1) ''701'' ''Tongi'') = [1]"
proof -
  have len100: "length (bucket_of (simulate_n 100) ''701'' ''Tongi'') = 100"
    using arg_cong[OF bucket_simulate_100, of length] by simp
  have s101: "simulate_n 101 =
      update_historical_patterns (simulate_n 100) ''701'' ''Tongi'' 0 101"
    using simulate_n_step[of 100] by simp
  have s1: "simulate_n 1 = update_historical_patterns (simulate_n 0) ''701'' ''Tongi'' 0 1"
    using simulate_n_step[of 0] by simp
  have present: "\<exists>stations b. map_of (simulate_n 101) ''701'' = Some stations \<and>
      map_of stations ''Tongi'' = Some b \<and> b = bucket_of (simulate_n 101) ''701'' ''Tongi''"
    by (simp add: s101 update_historical_patterns_def Let_def update_conv' bucket_of_def)
  then obtain stations b where sb: "map_of (simulate_n 101) ''701'' = Some stations"
      "map_of stations ''Tongi'' = Some b" "b = bucket_of (simulate_n 101) ''701'' ''Tongi''"
    by blast
  from history_bucket_bounded[of exact_ops "simulate_n 101" "''701''" stations "''Tongi''" b]
    reachable_simulate_n[of 101] sb
  have r1: "length (bucket_of (simulate_n 101) ''701'' ''Tongi'') \<le> 100"
    by simp
  from history_bucket_bounded[of exact_ops "simulate_n 100" "''701''" stations "''Tongi''" b 0 101]
    len100
  have "bucket_of (simulate_n 101) ''701'' ''Tongi'' =
      tl (bucket_of (simulate_n 100) ''701'' ''Tongi'') @ [\<lparr> delay = 0, timestamp = 101 \<rparr>]"
    by (simp add: s101)
  then have "map timestamp (bucket_of (simulate_n 101) ''701'' ''Tongi'') =
      tl (map timestamp (bucket_of (simulate_n 100) ''701'' ''Tongi'')) @ [101]"
    by (simp add: map_tl)
  also have "\<dots> = tl (map int [1..<101]) @ [101]"
    by (simp only: bucket_simulate_100)
  also have "\<dots> = map int [2..<102]"
    by code_simp
  finally have r2: "map timestamp (bucket_of (simulate_n 101) ''701'' ''Tongi'') = map int [2..<102]" .
  from history_bucket_bounded[of exact_ops "simulate_n 0" "''701''" stations "''Tongi''" b 0 1]
  have "bucket_of (update_historical_patterns (simulate_n 0) ''701'' ''Tongi'' 0 1)
          ''701'' ''Tongi'' = [\<lparr> delay = 0, timestamp = 1 \<rparr>]"
    by (simp add: bucket_of_def)
  then have "bucket_of (simulate_n 1) ''701'' ''Tongi'' = [\<lparr> delay = 0, timestamp = 1 \<rparr>]"
    by (simp only: s1)
  then have r3: "map timestamp (bucket_of (simulate_n 1) ''701'' ''Tongi'') = [1]"
    by simp
  from r1 r2 r3 show ?thesis by simp
qed

lemma stats_total_positive:
  "get_historical_delay_stats F hp train station = Inr stats \<Longrightarrow> total_delays stats \<noteq> 0"
  by (auto simp: get_historical_delay_stats_def Let_def split: option.splits sum.splits if_splits)

text \<open>
  Claim C5 (the code departs from it). With no recorded observation for the train,
  \<open>predict_delay_probability\<close> returns the error dictionary of the statistics, not
  the fallback: the statistics never report a count of zero, so for no history, train and
  station does the function return \<open>{delay_probability: 0.3, confidence: 'low'}\<close>.
\<close>

theorem predict_without_history:
  "predict_delay_probability F [] ''701'' ''Dhaka'' t =
     [(''error'', PStr ''No historical data available'')]
   \<and> predict_delay_probability F hp train_number station t \<noteq>
     [(''delay_probability'', PFloat 0.3), (''confidence'', PStr ''low'')]"
proof
  show "predict_delay_probability F [] ''701'' ''Dhaka'' t =
     [(''error'', PStr ''No historical data available'')]"
    by (simp add: predict_delay_probability_def get_historical_delay_stats_def)
next
  show "predict_delay_probability F hp train_number station t \<noteq>
     [(''delay_probability'', PFloat 0.3), (''confidence'', PStr ''low'')]"
  proof (cases "get_historical_delay_stats F hp train_number (Some station)")
    case (Inl msg)
    then show ?thesis by (simp add: predict_delay_probability_def)
  next
    case (Inr stats)
    then have "total_delays stats \<noteq> 0" by (rule stats_total_positive)
    with Inr show ?thesis
      by (simp add: predict_delay_probability_def Let_def split: option.splits)
  qed
qed


subsection \<open>The position calculator\<close>

lemmas pos_defs = calculate_train_position_def calculate_distance_covered_def
  calculate_distance_to_next_def calculate_eta_to_next_def leg_distances_def py_index_def
  find_current_station_index_def key_error_text_def exact_ops_def ten_km_def
  one_stop_schedule_def long_schedule_def

lemma long_position:
  "calculate_train_position exact_ops ten_km scenario_clock (at_clock 10 30)
     (Some long_schedule) (at_clock 23 0) =
   Inr \<lparr> ps_current_station_idx = 3, ps_current_station = PStr ''Mymensingh'',
         ps_next_station = PNone, ps_progress_percentage = 100, ps_distance_covered = 30,
         ps_distance_to_next = 0, ps_eta_to_next = None, ps_total_stations = 4,
         ps_current_time = at_clock 23 0 \<rparr>"
  by (simp add: pos_defs eval_defs Let_def upt_rec[of _ "numeral _"] upt_rec[of 0]
        upt_rec[of "Suc _"])


text \<open>
  Claim C10. For a train whose route has exactly one stop, \<open>calculate_train_position\<close>
  returns no position: the progress computation divides by \<open>total_stations - 1 = 0\<close>,
  and the handler answers the error dictionary of the \<open>ZeroDivisionError\<close>. Whenever
  a position is returned, the train has a schedule with at least two stops.
\<close>

theorem single_stop_no_snapshot:
  "(sched = Some s \<and> length (sched_routes s) = 1
      \<longrightarrow> calculate_train_position F leg clock eta_today sched now = Inl ''division by zero'')
   \<and> (calculate_train_position F leg clock eta_today sched now = Inr snap
      \<longrightarrow> (\<exists>s. sched = Some s \<and> 2 \<le> length (sched_routes s)
             \<and> ps_total_stations snap = length (sched_routes s)))"
proof (intro conjI impI)
  assume a: "sched = Some s \<and> length (sched_routes s) = 1"
  then have ne: "sched_routes s \<noteq> []" by auto
  obtain idx where "find_current_station_index clock (sched_routes s) now = Some idx"
    by (cases "pc_scan clock now 0 (sched_routes s)")
       (auto simp: find_current_station_index_def)
  with a ne show "calculate_train_position F leg clock eta_today sched now = Inl ''division by zero''"
    by (simp add: calculate_train_position_def Let_def)
next
  assume r: "calculate_train_position F leg clock eta_today sched now = Inr snap"
  then obtain s where s: "sched = Some s"
    by (cases sched) (auto simp: calculate_train_position_def)
  from r s have ne: "sched_routes s \<noteq> []"
    by (auto simp: calculate_train_position_def Let_def split: if_splits)
  from r s ne have n1: "int (length (sched_routes s)) - 1 \<noteq> 0"
    by (auto simp: calculate_train_position_def Let_def split: if_splits option.splits)
  from ne have "1 \<le> length (sched_routes s)" by (cases "sched_routes s") auto
  with n1 have len: "2 \<le> length (sched_routes s)" by linarith
  from r s ne n1 have "ps_total_stations snap = length (sched_routes s)"
    by (auto simp: calculate_train_position_def Let_def split: if_splits option.splits sum.splits)
  with s len show "\<exists>s. sched = Some s \<and> 2 \<le> length (sched_routes s)
             \<and> ps_total_stations snap = length (sched_routes s)"
    by blast
qed



theorem single_stop_no_snapshot_witness:
  "calculate_train_position exact_ops ten_km scenario_clock (at_clock 10 30)
     (Some one_stop_schedule) (at_clock 10 30) = Inl ''division by zero''
   \<and> 2 \<le> length (sched_routes long_schedule)"
proof -
  have one: "Some one_stop_schedule = Some one_stop_schedule \<and>
             length (sched_routes one_stop_schedule) = 1"
    by (simp add: one_stop_schedule_def)
  from single_stop_no_snapshot[where sched = "Some one_stop_schedule" and s = one_stop_schedule
      and F = exact_ops and leg = ten_km and clock = scenario_clock
      and eta_today = "at_clock 10 30" and now = "at_clock 10 30"] one
  have r1: "calculate_train_position exact_ops ten_km scenario_clock (at_clock 10 30)
     (Some one_stop_schedule) (at_clock 10 30) = Inl ''division by zero''"
    by blast
  from single_stop_no_snapshot[where sched = "Some long_schedule"
      and F = exact_ops and leg = ten_km and clock = scenario_clock
      and eta_today = "at_clock 10 30" and now = "at_clock 23 0"] long_position
  have r2: "2 \<le> length (sched_routes long_schedule)"
    by blast
  from r1 r2 show ?thesis by simp
qed
subsection \<open>The timeline generator\<close>

lemma fold_max_Max: "fold max ds (d::int) = Max (set (d # ds))"
  by (rule Max.set_eq_fold[symmetric])

lemma calculate_total_delay_Max:
  assumes "sts \<noteq> []"
  shows "calculate_total_delay sts = Max (set (map ss_delay_minutes sts))"
proof (cases sts)
  case Nil
  with assms show ?thesis by simp
next
  case (Cons st rest)
  have "calculate_total_delay sts = fold max (map ss_delay_minutes rest) (ss_delay_minutes st)"
    using Cons by (simp add: calculate_total_delay_def)
  also have "\<dots> = Max (set (ss_delay_minutes st # map ss_delay_minutes rest))"
    by (rule fold_max_Max)
  finally show ?thesis using Cons by simp
qed

lemma loop_cities:
  "station_statuses_loop F leg envs routes now i rest hp = (Some sts, hp') \<Longrightarrow>
   map (\<lambda>st. Some (ss_station_name st)) sts = map (\<lambda>r. map_of r ''city'') rest"
proof (induction rest arbitrary: i hp sts hp')
  case Nil
  then show ?case by simp
next
  case (Cons route rest)
  from Cons.prems obtain name where name: "map_of route ''city'' = Some name"
    by (cases "map_of route ''city''") auto
  obtain info hp1 where sim: "simulate_station_delays F (envs i) hp name
      (tg_parse_time_string (arrival_today (envs i))
         (case map_of route ''arrival_time'' of None \<Rightarrow> PNone | Some v \<Rightarrow> v))
      (tg_parse_time_string (departure_today (envs i))
         (case map_of route ''departure_time'' of None \<Rightarrow> PNone | Some v \<Rightarrow> v)) now = (info, hp1)"
    by fastforce
  from Cons.prems name sim obtain later where
    later: "station_statuses_loop F leg envs routes now (Suc i) rest hp1 = (Some later, hp')"
    and sts: "ss_station_name (hd sts) = name" "tl sts = later" "sts \<noteq> []"
    by (auto simp: Let_def split: prod.splits option.splits)
  from Cons.IH[OF later] sts name show ?case
    by (cases sts) auto
qed

lemma loop_total:
  "(\<forall>r \<in> set rest. map_of r ''city'' \<noteq> None) \<Longrightarrow>
   \<exists>sts hp'. station_statuses_loop F leg envs routes now i rest hp = (Some sts, hp')"
proof (induction rest arbitrary: i hp)
  case Nil
  then show ?case by simp
next
  case (Cons route rest)
  from Cons.prems obtain name where name: "map_of route ''city'' = Some name"
    by auto
  obtain info hp1 where sim: "simulate_station_delays F (envs i) hp name
      (tg_parse_time_string (arrival_today (envs i))
         (case map_of route ''arrival_time'' of None \<Rightarrow> PNone | Some v \<Rightarrow> v))
      (tg_parse_time_string (departure_today (envs i))
         (case map_of route ''departure_time'' of None \<Rightarrow> PNone | Some v \<Rightarrow> v)) now = (info, hp1)"
    by fastforce
  from Cons.prems have "\<forall>r \<in> set rest. map_of r ''city'' \<noteq> None" by simp
  from Cons.IH[OF this, of "Suc i" hp1] obtain later hp2 where
    "station_statuses_loop F leg envs routes now (Suc i) rest hp1 = (Some later, hp2)"
    by blast
  with name sim show ?case
    by (simp add: Let_def)
qed

lemma scenario_statuses:
  "map ss_delay_minutes (fst (generate_station_statuses exact_ops ten_km scenario_station_env []
      scenario_route (at_clock 10 30))) = [6, 8, 10]"
  by code_simp


lemma generate_train_status_Some:
  "\<exists>report hp'. generate_train_status F leg env hp (Some s) now train_number = (Inr report, hp')
     \<and> ts_station_statuses report =
         fst (generate_station_statuses F leg (station_envs env) hp (sched_routes s) now)"
  by (simp add: generate_train_status_def Let_def split: prod.splits)

text \<open>
  Claim C8. The overall \<open>delay_minutes\<close> of a status report is the maximum of the
  \<open>delay_minutes\<close> of its station entries, not their sum, and the report has one entry
  per stop of the route, in order, whenever every stop names its city. A report without
  station entries (an empty route, or a stop without a city) has the overall delay 0.
\<close>

theorem train_status_delay_is_maximum:
  assumes "generate_train_status F leg env hp (Some s) now train_number = (Inr report, hp')"
  shows "(ts_station_statuses report \<noteq> []
           \<longrightarrow> ts_delay_minutes report =
               Max (set (map ss_delay_minutes (ts_station_statuses report))))
    \<and> (ts_station_statuses report = [] \<longrightarrow> ts_delay_minutes report = 0)
    \<and> ((\<forall>r \<in> set (sched_routes s). map_of r ''city'' \<noteq> None)
           \<longrightarrow> map (\<lambda>st. Some (ss_station_name st)) (ts_station_statuses report)
               = map (\<lambda>r. map_of r ''city'') (sched_routes s))"
proof -
  obtain sts h where gen: "generate_station_statuses F leg (station_envs env) hp
      (sched_routes s) now = (sts, h)"
    by fastforce
  with assms have rep: "ts_station_statuses report = sts"
    "ts_delay_minutes report = calculate_total_delay sts"
    by (auto simp: generate_train_status_def Let_def)
  have a: "sts \<noteq> [] \<longrightarrow> calculate_total_delay sts = Max (set (map ss_delay_minutes sts))"
    using calculate_total_delay_Max by blast
  have b: "sts = [] \<longrightarrow> calculate_total_delay sts = 0"
    by (simp add: calculate_total_delay_def)
  have c: "(\<forall>r \<in> set (sched_routes s). map_of r ''city'' \<noteq> None)
           \<longrightarrow> map (\<lambda>st. Some (ss_station_name st)) sts
               = map (\<lambda>r. map_of r ''city'') (sched_routes s)"
  proof
    assume "\<forall>r \<in> set (sched_routes s). map_of r ''city'' \<noteq> None"
    from loop_total[OF this, of F leg "station_envs env" "sched_routes s" now 0 hp]
    obtain sts' h' where l: "station_statuses_loop F leg (station_envs env) (sched_routes s)
        now 0 (sched_routes s) hp = (Some sts', h')"
      by blast
    with gen have "sts = sts'" by (simp add: generate_station_statuses_def)
    with loop_cities[OF l] show "map (\<lambda>st. Some (ss_station_name st)) sts
               = map (\<lambda>r. map_of r ''city'') (sched_routes s)"
      by simp
  qed
  from a b c rep show ?thesis by simp
qed


theorem train_status_delay_is_maximum_witness:
  "\<exists>report hp'. generate_train_status exact_ops ten_km scenario_env [] (Some scenario_schedule)
        (at_clock 10 30) ''701'' = (Inr report, hp')
     \<and> map ss_delay_minutes (ts_station_statuses report) = [6, 8, 10]
     \<and> sum_list (map ss_delay_minutes (ts_station_statuses report)) = 24
     \<and> map ss_station_name (ts_station_statuses report) =
         [PStr ''StationA'', PStr ''StationB'', PStr ''StationC'']
     \<and> ts_delay_minutes report = 10"
proof -
  from generate_train_status_Some[of exact_ops ten_km scenario_env "[]" scenario_schedule
      "at_clock 10 30" "''701''"]
  obtain report hp' where
    run: "generate_train_status exact_ops ten_km scenario_env [] (Some scenario_schedule)
        (at_clock 10 30) ''701'' = (Inr report, hp')"
    and sts: "ts_station_statuses report =
         fst (generate_station_statuses exact_ops ten_km (station_envs scenario_env) []
                (sched_routes scenario_schedule) (at_clock 10 30))"
    by blast
  have delays: "map ss_delay_minutes (ts_station_statuses report) = [6, 8, 10]"
    using scenario_statuses by (simp add: sts scenario_env_def scenario_schedule_def)
  then have ne: "ts_station_statuses report \<noteq> []" by auto
  have cities: "\<forall>r \<in> set (sched_routes scenario_schedule). map_of r ''city'' \<noteq> None"
    by (simp add: scenario_schedule_def scenario_route_def)
  from train_status_delay_is_maximum[OF run] ne cities delays
  have "ts_delay_minutes report = 10"
    and "map (\<lambda>st. Some (ss_station_name st)) (ts_station_statuses report)
               = map (\<lambda>r. map_of r ''city'') (sched_routes scenario_schedule)"
    by simp_all
  then have "ts_delay_minutes report = 10"
    and "map (\<lambda>st. Some (ss_station_name st)) (ts_station_statuses report) =
         [Some (PStr ''StationA''), Some (PStr ''StationB''), Some (PStr ''StationC'')]"
    by (simp_all add: scenario_schedule_def scenario_route_def)
  then have "ts_delay_minutes report = 10"
    and "map ss_station_name (ts_station_statuses report) =
         [PStr ''StationA'', PStr ''StationB'', PStr ''StationC'']"
    by (auto simp: map_eq_Cons_conv)
  with run delays show ?thesis
    by (intro exI[of _ report] exI[of _ hp']) simp
qed

subsection \<open>Crowd validation\<close>

lemma find_confirmation_None:
  "(find_confirmation u confs = None) = (user_count u confs = 0)"
  by (induction confs) (auto simp: user_count_def)

lemma find_confirmation_Some:
  "find_confirmation u confs = Some i \<Longrightarrow>
   i < length confs \<and> map_of (confs ! i) ''user_id'' = Some (PStr u)"
proof (induction confs arbitrary: i)
  case Nil
  then show ?case by simp
next
  case (Cons c confs)
  then show ?case
    by (cases "map_of c ''user_id'' = Some (PStr u)") auto
qed

lemma refresh_keeps_user:
  "map_of (refresh_confirmation now st co c) ''user_id'' = map_of c ''user_id''"
  by (simp add: refresh_confirmation_def update_conv')

lemma refresh_fields:
  "map_of (refresh_confirmation now st co c) ''timestamp'' = Some (PIso now)
   \<and> map_of (refresh_confirmation now st co c) ''station_name'' = Some st
   \<and> map_of (refresh_confirmation now st co c) ''coordinates'' = Some co"
  by (simp add: refresh_confirmation_def update_conv')

lemma user_count_map:
  "user_count u confs =
     length (filter (\<lambda>x. x = Some (PStr u)) (map (\<lambda>c. map_of c ''user_id'') confs))"
  by (simp add: user_count_def filter_map comp_def)

lemma user_count_refresh:
  assumes "i < length confs"
  shows "user_count u (confs[i := refresh_confirmation now st co (confs ! i)]) = user_count u confs"
proof -
  have "map (\<lambda>c. map_of c ''user_id'') (confs[i := refresh_confirmation now st co (confs ! i)])
        = map (\<lambda>c. map_of c ''user_id'') confs"
    using assms by (simp add: map_update refresh_keeps_user list_update_same_conv)
  then show ?thesis by (simp only: user_count_map)
qed

lemma user_count_append:
  "user_count u (confs @ [c]) =
     user_count u confs + (if map_of c ''user_id'' = Some (PStr u) then 1 else 0)"
  by (simp add: user_count_def)

lemma confs_of_update:
  "confs_of (AList.update t b v) t' = (if t' = t then confirmations b else confs_of v t')"
  by (simp add: confs_of_def update_conv')

lemma total_of_update:
  "total_of (AList.update t b v) t' = (if t' = t then total_confirmations b else total_of v t')"
  by (simp add: total_of_def update_conv')

lemma confirm_repeat:
  assumes "find_confirmation user (confs_of v train) = Some i"
    and "confirm_user_on_train F v now mnow mclock train user st co = (res, v')"
  shows "confs_of v' train =
           (confs_of v train)[i := refresh_confirmation now st co (confs_of v train ! i)]"
    and "total_of v' train = total_of v train"
    and "cr_message res = ''Confirmation updated''"
    and "t \<noteq> train \<Longrightarrow> confs_of v' t = confs_of v t \<and> total_of v' t = total_of v t"
  using assms
  by (auto simp: confirm_user_on_train_def Let_def confs_of_def total_of_def update_conv'
      split: option.splits)

lemma confirm_first:
  assumes "find_confirmation user (confs_of v train) = None"
    and "confirm_user_on_train F v now mnow mclock train user st co = (res, v')"
  shows "confs_of v' train = confs_of v train @ [new_confirmation user now st co]"
    and "total_of v' train = total_of v train + 1"
    and "cr_message res = ''Confirmation added''"
    and "t \<noteq> train \<Longrightarrow> confs_of v' t = confs_of v t \<and> total_of v' t = total_of v t"
  using assms
  by (auto simp: confirm_user_on_train_def Let_def confs_of_def total_of_def update_conv'
      new_confirmation_def split: option.splits)

lemma five_confirmations_inv: "one_per_user five_confirmations"
  unfolding one_per_user_def
proof (intro allI)
  fix t u
  show "user_count u (confs_of five_confirmations t) \<le> 1"
    by (cases "t = ''701''") (auto simp: confs_of_def five_confirmations_def user_count_def)
qed

text \<open>
  Claim C9. \<open>confirm_user_on_train\<close> preserves the invariant that every train's
  bucket holds at most one confirmation per user. From a store that satisfies it, a
  repeated confirmation of a user on a train updates the time stamp, the station and the
  coordinates of the existing entry in place and leaves the length of the list and
  \<open>total_confirmations\<close> as they were; a first confirmation appends exactly one
  entry and adds one to \<open>total_confirmations\<close>. The buckets of the other trains are
  untouched.
\<close>

theorem confirm_user_on_train_one_per_user:
  assumes inv: "one_per_user v"
    and run: "confirm_user_on_train F v now metrics_now metrics_clock train_number user_id
                station_name coordinates = (res, v')"
  shows "one_per_user v'
    \<and> (user_count user_id (confs_of v train_number) = 1 \<longrightarrow>
         (\<exists>i < length (confs_of v train_number).
             map_of (confs_of v train_number ! i) ''user_id'' = Some (PStr user_id)
           \<and> confs_of v' train_number =
               (confs_of v train_number)
                 [i := refresh_confirmation now station_name coordinates
                         (confs_of v train_number ! i)]
           \<and> map_of (confs_of v' train_number ! i) ''user_id'' = Some (PStr user_id)
           \<and> map_of (confs_of v' train_number ! i) ''timestamp'' = Some (PIso now)
           \<and> map_of (confs_of v' train_number ! i) ''station_name'' = Some station_name
           \<and> map_of (confs_of v' train_number ! i) ''coordinates'' = Some coordinates)
         \<and> length (confs_of v' train_number) = length (confs_of v train_number)
         \<and> total_of v' train_number = total_of v train_number
         \<and> cr_message res = ''Confirmation updated'')
    \<and> (user_count user_id (confs_of v train_number) = 0 \<longrightarrow>
         confs_of v' train_number =
           confs_of v train_number @ [new_confirmation user_id now station_name coordinates]
         \<and> total_of v' train_number = total_of v train_number + 1
         \<and> cr_message res = ''Confirmation added'')
    \<and> (\<forall>t. t \<noteq> train_number \<longrightarrow> confs_of v' t = confs_of v t \<and> total_of v' t = total_of v t)"
proof (cases "find_confirmation user_id (confs_of v train_number)")
  case None
  note first = confirm_first[OF None run]
  have zero: "user_count user_id (confs_of v train_number) = 0"
    using None by (simp add: find_confirmation_None)
  have "one_per_user v'"
    unfolding one_per_user_def
  proof (intro allI)
    fix t u
    show "user_count u (confs_of v' t) \<le> 1"
    proof (cases "t = train_number")
      case True
      have "user_count u (confs_of v train_number) \<le> 1"
        using inv by (simp add: one_per_user_def)
      with zero True first(1) show ?thesis
        by (cases "u = user_id") (auto simp: user_count_append new_confirmation_def)
    next
      case False
      with first(4)[of t] inv show ?thesis by (simp add: one_per_user_def)
    qed
  qed
  with first zero show ?thesis by simp
next
  case (Some i)
  note rep = confirm_repeat[OF Some run]
  from find_confirmation_Some[OF Some]
  have i: "i < length (confs_of v train_number)"
    "map_of (confs_of v train_number ! i) ''user_id'' = Some (PStr user_id)"
    by simp_all
  have nonzero: "user_count user_id (confs_of v train_number) \<noteq> 0"
    using Some find_confirmation_None[of user_id "confs_of v train_number"] by simp
  have "one_per_user v'"
    unfolding one_per_user_def
  proof (intro allI)
    fix t u
    show "user_count u (confs_of v' t) \<le> 1"
    proof (cases "t = train_number")
      case True
      have "user_count u (confs_of v train_number) \<le> 1"
        using inv by (simp add: one_per_user_def)
      with True rep(1) i(1) show ?thesis
        by (simp add: user_count_refresh)
    next
      case False
      with rep(4)[of t] inv show ?thesis by (simp add: one_per_user_def)
    qed
  qed
  moreover have "\<exists>i < length (confs_of v train_number).
             map_of (confs_of v train_number ! i) ''user_id'' = Some (PStr user_id)
           \<and> confs_of v' train_number =
               (confs_of v train_number)
                 [i := refresh_confirmation now station_name coordinates
                         (confs_of v train_number ! i)]
           \<and> map_of (confs_of v' train_number ! i) ''user_id'' = Some (PStr user_id)
           \<and> map_of (confs_of v' train_number ! i) ''timestamp'' = Some (PIso now)
           \<and> map_of (confs_of v' train_number ! i) ''station_name'' = Some station_name
           \<and> map_of (confs_of v' train_number ! i) ''coordinates'' = Some coordinates"
    using i rep(1) refresh_fields[of now station_name coordinates "confs_of v train_number ! i"]
    by (intro exI[of _ i]) (simp add: refresh_keeps_user)
  moreover have "length (confs_of v' train_number) = length (confs_of v train_number)"
    using rep(1) by simp
  ultimately show ?thesis
    using rep(2,3,4) nonzero by simp
qed


theorem confirm_user_on_train_one_per_user_witness:
  "one_per_user (snd (confirm_user_on_train exact_ops five_confirmations (at_clock 10 30)
       (at_clock 10 30) scenario_clock ''701'' ''u3'' (PStr ''Joydebpur'') PNone))
   \<and> length (confs_of (snd (confirm_user_on_train exact_ops five_confirmations (at_clock 10 30)
       (at_clock 10 30) scenario_clock ''701'' ''u3'' (PStr ''Joydebpur'') PNone)) ''701'') = 5
   \<and> total_of (snd (confirm_user_on_train exact_ops five_confirmations (at_clock 10 30)
       (at_clock 10 30) scenario_clock ''701'' ''u3'' (PStr ''Joydebpur'') PNone)) ''701'' = 5
   \<and> length (confs_of (snd (confirm_user_on_train exact_ops five_confirmations (at_clock 10 30)
       (at_clock 10 30) scenario_clock ''701'' ''u9'' (PStr ''Joydebpur'') PNone)) ''701'') = 6
   \<and> total_of (snd (confirm_user_on_train exact_ops five_confirmations (at_clock 10 30)
       (at_clock 10 30) scenario_clock ''701'' ''u9'' (PStr ''Joydebpur'') PNone)) ''701'' = 6"
proof -
  let ?again = "confirm_user_on_train exact_ops five_confirmations (at_clock 10 30)
       (at_clock 10 30) scenario_clock ''701'' ''u3'' (PStr ''Joydebpur'') PNone"
  let ?fresh = "confirm_user_on_train exact_ops five_confirmations (at_clock 10 30)
       (at_clock 10 30) scenario_clock ''701'' ''u9'' (PStr ''Joydebpur'') PNone"
  have e1: "?again = (fst ?again, snd ?again)" by simp
  have e2: "?fresh = (fst ?fresh, snd ?fresh)" by simp
  have len: "length (confs_of five_confirmations ''701'') = 5"
    "total_of five_confirmations ''701'' = 5"
    by (simp_all add: confs_of_def total_of_def five_confirmations_def)
  have c1: "user_count ''u3'' (confs_of five_confirmations ''701'') = 1"
    by (simp add: confs_of_def five_confirmations_def user_count_def)
  have c0: "user_count ''u9'' (confs_of five_confirmations ''701'') = 0"
    by (simp add: confs_of_def five_confirmations_def user_count_def)
  from confirm_user_on_train_one_per_user[OF five_confirmations_inv e1] c1 len
  have r1: "one_per_user (snd ?again) \<and> length (confs_of (snd ?again) ''701'') = 5
      \<and> total_of (snd ?again) ''701'' = 5"
    by simp
  from confirm_user_on_train_one_per_user[OF five_confirmations_inv e2] c0 len
  have r2: "length (confs_of (snd ?fresh) ''701'') = 6 \<and> total_of (snd ?fresh) ''701'' = 6"
    by simp
  from r1 r2 show ?thesis by simp
qed

lemma crowd_data_has_no_confidence:
  "map_of (get_train_crowd_data v now train_number) ''confidence'' = None
   \<and> map_of (get_train_crowd_data v now train_number) ''error'' = None"
  by (simp add: get_train_crowd_data_def Let_def split: option.splits)

text \<open>
  Claim C6 (the code departs from it). For train 701 with five active confirmations the
  crowd metrics report the confidence \<open>medium\<close>, yet
  \<open>adjust_train_status_with_crowd_data\<close> returns the report it was given, with no
  adjustment and no \<open>crowd_validation\<close> entry: the dictionary of
  \<open>get_train_crowd_data\<close> has no key \<open>confidence\<close>, the lookup raises
  \<open>KeyError\<close>, and the handler returns \<open>base_status\<close>. This holds for every store,
  train and report.
\<close>

theorem adjust_returns_base_status:
  "map_of (calculate_crowd_metrics exact_ops five_confirmations (at_clock 10 30)
             scenario_clock ''701'') ''confidence'' = Some (PStr ''medium'')
   \<and> adjust_train_status_with_crowd_data exact_ops five_confirmations (at_clock 10 30)
        plus_two ''701'' [(''delay_minutes'', PInt 10)] = [(''delay_minutes'', PInt 10)]
   \<and> adjust_train_status_with_crowd_data F v now drawn train_number base_status = base_status"
proof -
  have general: "\<And>F v now drawn train_number base_status.
      adjust_train_status_with_crowd_data F v now drawn train_number base_status = base_status"
    by (simp add: adjust_train_status_with_crowd_data_def Let_def crowd_data_has_no_confidence)
  have "map_of (calculate_crowd_metrics exact_ops five_confirmations (at_clock 10 30)
             scenario_clock ''701'') ''confidence'' = Some (PStr ''medium'')"
    by code_simp
  with general show ?thesis by simp
qed


end
